theory Spec2Isabelle
  imports Complex_Main "HOL-Library.AList" "HOL-Library.Sublist"
begin

section \<open>JavaScript values\<close>

text \<open>
  The typed store (\<^verbatim>\<open>src/store.ts\<close>) moves JavaScript values of type \<^verbatim>\<open>unknown\<close> between
  the application and a TinyBase store. A number is an IEEE double: the finite ones are
  modelled by the real they denote, the three special values are kept apart. A
  \<^verbatim>\<open>Date\<close> carries its time value in milliseconds, \<open>None\<close> for an invalid date. A
  plain object is the list of its own enumerable properties in enumeration order
  (\<^verbatim>\<open>Object.entries\<close>); \<open>map_of\<close> reads an own property
  (\<^verbatim>\<open>hasOwnProperty\<close>).
\<close>

datatype number = Finite real | NaN | PosInfinity | NegInfinity

datatype jsval =
    Undefined
  | Null
  | Bool bool
  | Num number
  | Str string
  | BigInt int
  | Symbol string
  | Func nat
  | Date "int option"
  | Arr "jsval list"
  | Obj "(string \<times> jsval) list"

type_synonym 'a obj = "(string \<times> 'a) list"
type_synonym Row = "jsval obj"
type_synonym Table = "Row obj"
type_synonym Tables = "Table obj"
type_synonym Values = "jsval obj"

text \<open>The \<^verbatim>\<open>typeof\<close> operator.\<close>

fun typeof :: "jsval \<Rightarrow> string" where
  "typeof Undefined = ''undefined''"
| "typeof Null = ''object''"
| "typeof (Bool b) = ''boolean''"
| "typeof (Num n) = ''number''"
| "typeof (Str s) = ''string''"
| "typeof (BigInt i) = ''bigint''"
| "typeof (Symbol d) = ''symbol''"
| "typeof (Func f) = ''function''"
| "typeof (Date t) = ''object''"
| "typeof (Arr xs) = ''object''"
| "typeof (Obj ps) = ''object''"

text \<open>
  What a \<^verbatim>\<open>throw\<close> carries. The typed store itself only throws \<^verbatim>\<open>new Error(message)\<close>;
  the other classes are thrown by schemas and by the JavaScript runtime.
\<close>

datatype error =
    Error string
  | ZodError string
  | TypeError string
  | RangeError string
  | SyntaxError string

text \<open>
  A property read \<^verbatim>\<open>obj[key]\<close> follows the prototype chain: where the object has no own
  property of that name, it finds the member of \<^verbatim>\<open>Object.prototype\<close> of that name, if
  there is one. These members are functions, and \<^verbatim>\<open>__proto__\<close> is \<^verbatim>\<open>Object.prototype\<close>
  itself: all of them are truthy. \<open>getProperty obj inherited key\<close> is the read, with \<open>inherited\<close>
  standing for an inherited member in the type of the object's own properties; \<open>None\<close> is
  \<^verbatim>\<open>undefined\<close>.

  An assignment \<^verbatim>\<open>obj[key] = v\<close> to a plain object makes an own property (an existing key
  keeps its place, a new key is appended), except for the key \<^verbatim>\<open>__proto__\<close>, which calls
  the setter inherited from \<^verbatim>\<open>Object.prototype\<close> and makes none.
\<close>

definition Object_prototype :: "string list" where
  "Object_prototype =
     [''constructor'', ''__defineGetter__'', ''__defineSetter__'', ''hasOwnProperty'',
      ''__lookupGetter__'', ''__lookupSetter__'', ''isPrototypeOf'', ''propertyIsEnumerable'',
      ''toString'', ''valueOf'', ''__proto__'', ''toLocaleString'']"

definition getProperty :: "(string \<times> 'a) list \<Rightarrow> 'a \<Rightarrow> string \<Rightarrow> 'a option" where
  "getProperty obj inherited key =
     (case map_of obj key of
        Some v \<Rightarrow> Some v
      | None \<Rightarrow> if key \<in> set Object_prototype then Some inherited else None)"

definition assign :: "string \<Rightarrow> 'a \<Rightarrow> (string \<times> 'a) list \<Rightarrow> (string \<times> 'a) list" where
  "assign key v obj = (if key = ''__proto__'' then obj else AList.update key v obj)"

section \<open>The scalar guard (\<^verbatim>\<open>store.ts\<close>, lines 19-65)\<close>

definition isStorageCell :: "jsval \<Rightarrow> bool" where
  "isStorageCell value =
     (value = Null \<or> typeof value = ''string'' \<or> typeof value = ''number''
      \<or> typeof value = ''boolean'')"

definition assertStorageCell :: "jsval \<Rightarrow> string \<Rightarrow> error + unit" where
  "assertStorageCell value context =
     (if value = Undefined then Inr ()
      else if isStorageCell value then Inr ()
      else Inl (Error
        (''Invalid encoded value for TinyBase storage at '' @ context @ ''. ''
         @ ''Expected string|number|boolean|null (or undefined to delete), got ''
         @ typeof value @ ''. ''
         @ ''Wrap non-primitive schemas with an explicit codec (e.g. json(schema), isoDate, bigintString).'')))"

text \<open>
  The spec's names for the errors of the typed store, each the \<^verbatim>\<open>Error\<close> with the
  message the source builds.
\<close>

definition StorageTypeError :: "string \<Rightarrow> string \<Rightarrow> error" where
  "StorageTypeError context got =
     Error
       (''Invalid encoded value for TinyBase storage at '' @ context @ ''. ''
        @ ''Expected string|number|boolean|null (or undefined to delete), got ''
        @ got @ ''. ''
        @ ''Wrap non-primitive schemas with an explicit codec (e.g. json(schema), isoDate, bigintString).'')"

definition UnknownTableError :: "string \<Rightarrow> error" where
  "UnknownTableError tableId = Error (''Unknown tableId: '' @ tableId)"

definition UnknownCellError :: "string \<Rightarrow> string \<Rightarrow> error" where
  "UnknownCellError tableId cellId = Error (''Unknown cellId: '' @ tableId @ ''.'' @ cellId)"

definition UnknownValueError :: "string \<Rightarrow> error" where
  "UnknownValueError valueId = Error (''Unknown valueId: '' @ valueId)"

definition MissingRowError :: "string \<Rightarrow> string \<Rightarrow> error" where
  "MissingRowError tableId rowId =
     Error (''Cannot set cell on missing row: '' @ tableId @ ''/'' @ rowId
            @ ''. Create the row with setRow() first.'')"

text \<open>
  \<^verbatim>\<open>encodeRow\<close>: the loop over \<^verbatim>\<open>Object.entries(encoded)\<close> with the accumulator
  \<^verbatim>\<open>out\<close>; the first entry the guard refuses ends it.
\<close>

primrec encodeRow_loop :: "(string \<times> jsval) list \<Rightarrow> string \<Rightarrow> Row \<Rightarrow> error + Row" where
  "encodeRow_loop [] context out = Inr out"
| "encodeRow_loop (entry # rest) context out =
     (case assertStorageCell (snd entry) (context @ ''.'' @ fst entry) of
        Inl e \<Rightarrow> Inl e
      | Inr _ \<Rightarrow>
          encodeRow_loop rest context
            (if snd entry \<noteq> Undefined then assign (fst entry) (snd entry) out else out))"

definition encodeRow :: "jsval obj \<Rightarrow> string \<Rightarrow> error + Row" where
  "encodeRow encoded context = encodeRow_loop encoded context []"

primrec encodeTable_loop :: "(string \<times> jsval obj) list \<Rightarrow> string \<Rightarrow> Table \<Rightarrow> error + Table" where
  "encodeTable_loop [] context out = Inr out"
| "encodeTable_loop (entry # rest) context out =
     (case encodeRow (snd entry) (context @ ''.'' @ fst entry) of
        Inl e \<Rightarrow> Inl e
      | Inr row \<Rightarrow> encodeTable_loop rest context (assign (fst entry) row out))"

definition encodeTable :: "jsval obj obj \<Rightarrow> string \<Rightarrow> error + Table" where
  "encodeTable encoded context = encodeTable_loop encoded context []"

section \<open>Schemas\<close>

text \<open>
  A zod schema is, for the typed store, an opaque pair of functions that may throw:
  \<^verbatim>\<open>encode\<close> from the application's value to the stored one and \<^verbatim>\<open>decode\<close> back. A
  row schema (\<^verbatim>\<open>z.object\<close>) encodes an application row to an object of encoded cells,
  and has the \<^verbatim>\<open>shape\<close> that maps each cell id to the cell's schema. The declaration
  (\<^verbatim>\<open>StoreSchema\<close>) maps table ids to row schemas and has one object schema for the
  values.

  The typed store reads its schemas with \<^verbatim>\<open>mapped.tables[tableId]\<close> and
  \<^verbatim>\<open>shape[cellId]\<close>, so it may get a member of \<^verbatim>\<open>Object.prototype\<close> where it expects a
  schema. Such a member has no \<^verbatim>\<open>encode\<close> and no \<^verbatim>\<open>decode\<close>, so calling either throws a
  \<^verbatim>\<open>TypeError\<close> ("schema.decode is not a function"), and its \<^verbatim>\<open>shape\<close> is \<^verbatim>\<open>undefined\<close>,
  which is \<open>None\<close> here; a row schema has \<open>Some\<close> shape.
\<close>

record ('a, 'b) zodtype =
  encode :: "'a \<Rightarrow> error + 'b"
  decode :: "'b \<Rightarrow> error + 'a"

type_synonym codec = "(jsval, jsval) zodtype"

record zobject = "(jsval, jsval obj) zodtype" +
  shape :: "(string \<times> codec) list option"

record store_schema =
  tables :: "(string \<times> zobject) list"
  valuesSchema :: "zobject"

definition inheritedMember :: codec where
  "inheritedMember =
     \<lparr> encode = (\<lambda>v. Inl (TypeError ''schema.encode is not a function'')),
       decode = (\<lambda>v. Inl (TypeError ''schema.decode is not a function'')) \<rparr>"

definition inheritedRowMember :: zobject where
  "inheritedRowMember =
     \<lparr> encode = (\<lambda>v. Inl (TypeError ''schema.encode is not a function'')),
       decode = (\<lambda>v. Inl (TypeError ''schema.decode is not a function'')),
       shape = None \<rparr>"

text \<open>
  Modelled from the spec: \<^verbatim>\<open>z.record(z.string(), schema)\<close> is zod's and not part of the
  repository. The spec's table codec "maps \<^verbatim>\<open>encodeRow\<close> over all entries" and "maps a
  row-collection decode (structural, by row id) over the storage table": the row schema
  is applied to every entry of the table, by row id, and the first failure is the one
  reported. Where the second argument is not a schema (a member of \<^verbatim>\<open>Object.prototype\<close>),
  zod reads the call as its one-argument form \<^verbatim>\<open>z.record(valueSchema)\<close>: the record is
  then one of strings, which no stored row is; \<open>stringEntries\<close> are the
  \<^verbatim>\<open>Object.entries\<close> of a string, which is what \<^verbatim>\<open>encodeRow\<close> reads of a row.
\<close>

primrec mapEntries :: "('a \<Rightarrow> error + 'b) \<Rightarrow> (string \<times> 'a) list \<Rightarrow> error + (string \<times> 'b) list" where
  "mapEntries f [] = Inr []"
| "mapEntries f (entry # rest) =
     (case f (snd entry) of
        Inl e \<Rightarrow> Inl e
      | Inr v \<Rightarrow>
          (case mapEntries f rest of
             Inl e \<Rightarrow> Inl e
           | Inr rest' \<Rightarrow> Inr ((fst entry, v) # rest')))"

definition digit :: "nat \<Rightarrow> char" where
  "digit d = char_of (of_char CHR ''0'' + d)"

fun decimal :: "nat \<Rightarrow> string" where
  "decimal n = (if n < 10 then [digit n] else decimal (n div 10) @ [digit (n mod 10)])"

definition stringEntries :: "string \<Rightarrow> jsval obj" where
  "stringEntries s = map (\<lambda>i. (decimal i, Str [s ! i])) [0..<length s]"

definition record_encode :: "zobject \<Rightarrow> jsval \<Rightarrow> error + jsval obj obj" where
  "record_encode schema table =
     (case table of
        Obj rows \<Rightarrow>
          (case shape schema of
             Some cells \<Rightarrow> mapEntries (encode schema) rows
           | None \<Rightarrow>
               mapEntries
                 (\<lambda>row. case row of
                           Str s \<Rightarrow> Inr (stringEntries s)
                         | _ \<Rightarrow> Inl (ZodError ''Invalid input: expected string''))
                 rows)
      | _ \<Rightarrow> Inl (ZodError ''Invalid input: expected record''))"

definition record_decode :: "zobject \<Rightarrow> Table \<Rightarrow> error + jsval" where
  "record_decode schema table =
     (case mapEntries
             (case shape schema of
                Some cells \<Rightarrow> decode schema
              | None \<Rightarrow> (\<lambda>row. Inl (ZodError ''Invalid input: expected string'')))
             table of
        Inl e \<Rightarrow> Inl e
      | Inr rows \<Rightarrow> Inr (Obj rows))"

subsection \<open>The schema registry (\<^verbatim>\<open>store.ts\<close>, lines 73-107)\<close>

definition getRowSchema :: "store_schema \<Rightarrow> string \<Rightarrow> error + zobject" where
  "getRowSchema mapped tableId =
     (case getProperty (tables mapped) inheritedRowMember tableId of
        None \<Rightarrow> Inl (Error (''Unknown tableId: '' @ tableId))
      | Some schema \<Rightarrow> Inr schema)"

definition getCellSchema :: "store_schema \<Rightarrow> string \<Rightarrow> string \<Rightarrow> error + codec" where
  "getCellSchema mapped tableId cellId =
     (case getProperty (tables mapped) inheritedRowMember tableId of
        None \<Rightarrow> Inl (Error (''Unknown tableId: '' @ tableId))
      | Some tableSchema \<Rightarrow>
          (case shape tableSchema of
             None \<Rightarrow> Inl (TypeError ''Cannot read properties of undefined'')
           | Some cells \<Rightarrow>
               (case getProperty cells inheritedMember cellId of
                  None \<Rightarrow> Inl (Error (''Unknown cellId: '' @ tableId @ ''.'' @ cellId))
                | Some cellSchema \<Rightarrow> Inr cellSchema)))"

definition tryGetCellSchema :: "store_schema \<Rightarrow> string \<Rightarrow> string \<Rightarrow> codec option" where
  "tryGetCellSchema mapped tableId cellId =
     (case getProperty (tables mapped) inheritedRowMember tableId of
        None \<Rightarrow> None
      | Some tableSchema \<Rightarrow>
          (case shape tableSchema of
             None \<Rightarrow> None
           | Some cells \<Rightarrow> getProperty cells inheritedMember cellId))"

definition getValueSchema :: "store_schema \<Rightarrow> string \<Rightarrow> error + codec" where
  "getValueSchema mapped valueId =
     (case shape (valuesSchema mapped) of
        None \<Rightarrow> Inl (TypeError ''Cannot read properties of undefined'')
      | Some cells \<Rightarrow>
          (case getProperty cells inheritedMember valueId of
             None \<Rightarrow> Inl (Error (''Unknown valueId: '' @ valueId))
           | Some valueSchema \<Rightarrow> Inr valueSchema))"

definition tryGetValueSchema :: "store_schema \<Rightarrow> string \<Rightarrow> codec option" where
  "tryGetValueSchema mapped valueId =
     (case shape (valuesSchema mapped) of
        None \<Rightarrow> None
      | Some cells \<Rightarrow> getProperty cells inheritedMember valueId)"

section \<open>The underlying store\<close>

text \<open>
  \<^verbatim>\<open>createTypedStore(store, schema)\<close> takes the store as an object and calls its
  methods; the store is TinyBase's and not part of the repository. It is a parameter
  here as well: a record of the methods the typed store calls (the spec's read and
  write primitives), over any type \<open>'s\<close> of store states. A read takes the state; a
  write takes the state and returns the new one. \<^verbatim>\<open>store.getRow\<close> answers \<open>None\<close> for
  \<^verbatim>\<open>undefined\<close>, \<^verbatim>\<open>store.getCell\<close> and \<^verbatim>\<open>store.getValue\<close> answer \<open>Undefined\<close> where
  nothing is stored.

  \<^verbatim>\<open>store.setCell\<close> and \<^verbatim>\<open>store.setValue\<close> take a value or a function of the current
  value. The call with a function is a method of its own here, \<open>store_setCellWith\<close> and
  \<open>store_setValueWith\<close>: when the store calls the function, what it writes, and the state
  it is in when the function has thrown, are the store's doing. The function may throw,
  and so may this call.
\<close>

record 's store =
  store_getTables :: "'s \<Rightarrow> Tables"
  store_setTables :: "Tables \<Rightarrow> 's \<Rightarrow> 's"
  store_getTable :: "'s \<Rightarrow> string \<Rightarrow> Table"
  store_setTable :: "string \<Rightarrow> Table \<Rightarrow> 's \<Rightarrow> 's"
  store_getRow :: "'s \<Rightarrow> string \<Rightarrow> string \<Rightarrow> Row option"
  store_setRow :: "string \<Rightarrow> string \<Rightarrow> Row \<Rightarrow> 's \<Rightarrow> 's"
  store_hasRow :: "'s \<Rightarrow> string \<Rightarrow> string \<Rightarrow> bool"
  store_getCell :: "'s \<Rightarrow> string \<Rightarrow> string \<Rightarrow> string \<Rightarrow> jsval"
  store_setCell :: "string \<Rightarrow> string \<Rightarrow> string \<Rightarrow> jsval \<Rightarrow> 's \<Rightarrow> 's"
  store_setCellWith ::
    "string \<Rightarrow> string \<Rightarrow> string \<Rightarrow> (jsval \<Rightarrow> error + jsval) \<Rightarrow> 's \<Rightarrow> (error + unit) \<times> 's"
  store_delCell :: "string \<Rightarrow> string \<Rightarrow> string \<Rightarrow> 's \<Rightarrow> 's"
  store_getValues :: "'s \<Rightarrow> Values"
  store_setValues :: "Values \<Rightarrow> 's \<Rightarrow> 's"
  store_getValue :: "'s \<Rightarrow> string \<Rightarrow> jsval"
  store_setValue :: "string \<Rightarrow> jsval \<Rightarrow> 's \<Rightarrow> 's"
  store_setValueWith :: "string \<Rightarrow> (jsval \<Rightarrow> error + jsval) \<Rightarrow> 's \<Rightarrow> (error + unit) \<times> 's"
  store_delValue :: "string \<Rightarrow> 's \<Rightarrow> 's"

section \<open>The typed store (\<^verbatim>\<open>createTypedStore\<close>, \<^verbatim>\<open>store.ts\<close>)\<close>

text \<open>
  A read returns the decoded value or the exception; a write returns the exception or
  \<open>()\<close> (the source returns the typed store itself, for chaining) together with the
  state of the underlying store after the call.
\<close>

subsection \<open>Tables\<close>



primrec setTables_loop :: "store_schema \<Rightarrow> (string \<times> jsval) list \<Rightarrow> Tables \<Rightarrow> error + Tables" where
  "setTables_loop mapped [] encoded = Inr encoded"
| "setTables_loop mapped (entry # rest) encoded =
     (case getProperty (tables mapped) inheritedRowMember (fst entry) of
        None \<Rightarrow> setTables_loop mapped rest encoded
      | Some schema \<Rightarrow>
          (case record_encode schema (snd entry) of
             Inl e \<Rightarrow> Inl e
           | Inr encodedTable \<Rightarrow>
               (case encodeTable encodedTable (''tables.'' @ fst entry) of
                  Inl e \<Rightarrow> Inl e
                | Inr table \<Rightarrow>
                    setTables_loop mapped rest (assign (fst entry) table encoded))))"

definition setTables :: "'s store \<Rightarrow> store_schema \<Rightarrow> jsval obj \<Rightarrow> 's \<Rightarrow> (error + unit) \<times> 's" where
  "setTables st mapped tbls s =
     (case setTables_loop mapped tbls [] of
        Inl e \<Rightarrow> (Inl e, s)
      | Inr encoded \<Rightarrow> (Inr (), store_setTables st encoded s))"

definition getTable :: "'s store \<Rightarrow> store_schema \<Rightarrow> string \<Rightarrow> 's \<Rightarrow> error + jsval" where
  "getTable st mapped tableId s =
     (let table = store_getTable st s tableId in
      case getRowSchema mapped tableId of
        Inl e \<Rightarrow> Inl e
      | Inr schema \<Rightarrow> record_decode schema table)"

definition setTable :: "'s store \<Rightarrow> store_schema \<Rightarrow> string \<Rightarrow> jsval \<Rightarrow> 's \<Rightarrow> (error + unit) \<times> 's" where
  "setTable st mapped tableId table s =
     (case getRowSchema mapped tableId of
        Inl e \<Rightarrow> (Inl e, s)
      | Inr schema \<Rightarrow>
          (case record_encode schema table of
             Inl e \<Rightarrow> (Inl e, s)
           | Inr encodedTable \<Rightarrow>
               (case encodeTable encodedTable (''tables.'' @ tableId) of
                  Inl e \<Rightarrow> (Inl e, s)
                | Inr encoded \<Rightarrow> (Inr (), store_setTable st tableId encoded s))))"

subsection \<open>Rows\<close>

definition getRow :: "'s store \<Rightarrow> store_schema \<Rightarrow> string \<Rightarrow> string \<Rightarrow> 's \<Rightarrow> error + jsval" where
  "getRow st mapped tableId rowId s =
     (case getRowSchema mapped tableId of
        Inl e \<Rightarrow> Inl e
      | Inr schema \<Rightarrow>
          (case store_getRow st s tableId rowId of
             None \<Rightarrow> Inr Undefined
           | Some row \<Rightarrow> if length (map fst row) = 0 then Inr Undefined else decode schema row))"

definition setRow :: "'s store \<Rightarrow> store_schema \<Rightarrow> string \<Rightarrow> string \<Rightarrow> jsval \<Rightarrow> 's \<Rightarrow> (error + unit) \<times> 's" where
  "setRow st mapped tableId rowId row s =
     (case getRowSchema mapped tableId of
        Inl e \<Rightarrow> (Inl e, s)
      | Inr schema \<Rightarrow>
          (case encode schema row of
             Inl e \<Rightarrow> (Inl e, s)
           | Inr encoded \<Rightarrow>
               (case encodeRow encoded (''tables.'' @ tableId @ ''.'' @ rowId) of
                  Inl e \<Rightarrow> (Inl e, s)
                | Inr storageRow \<Rightarrow> (Inr (), store_setRow st tableId rowId storageRow s))))"

subsection \<open>Cells\<close>

text \<open>
  \<^verbatim>\<open>setCell\<close> and \<^verbatim>\<open>setValue\<close> take a value or a function of the current value
  (\<^verbatim>\<open>typeof cell === "function"\<close>): a callable argument is a \<open>Mapper\<close>, anything else a
  \<open>Literal\<close>. The application's function may throw.
\<close>

datatype cell_arg = Literal jsval | Mapper "jsval \<Rightarrow> error + jsval"

definition getCell :: "'s store \<Rightarrow> store_schema \<Rightarrow> string \<Rightarrow> string \<Rightarrow> string \<Rightarrow> 's \<Rightarrow> error + jsval" where
  "getCell st mapped tableId rowId cellId s =
     (case getCellSchema mapped tableId cellId of
        Inl e \<Rightarrow> Inl e
      | Inr schema \<Rightarrow>
          (let cell = store_getCell st s tableId rowId cellId in
           if cell = Undefined then Inr Undefined else decode schema cell))"

text \<open>
  The closure \<^verbatim>\<open>mapCell\<close> that \<^verbatim>\<open>setCell\<close> hands to the store (lines 218-228), and
  \<^verbatim>\<open>mapValue\<close> of \<^verbatim>\<open>setValue\<close> (lines 384-394), which is the same function with the
  value's schema and path.
\<close>

definition mapCell :: "codec \<Rightarrow> string \<Rightarrow> (jsval \<Rightarrow> error + jsval) \<Rightarrow> jsval \<Rightarrow> error + jsval" where
  "mapCell schema context cell encoded =
     (case (if encoded = Undefined then Inr Undefined else decode schema encoded) of
        Inl e \<Rightarrow> Inl e
      | Inr decoded \<Rightarrow>
          (case cell decoded of
             Inl e \<Rightarrow> Inl e
           | Inr nextDecoded \<Rightarrow>
               if nextDecoded = Undefined then Inr Undefined
               else
                 (case encode schema nextDecoded of
                    Inl e \<Rightarrow> Inl e
                  | Inr nextEncoded \<Rightarrow>
                      (case assertStorageCell nextEncoded context of
                         Inl e \<Rightarrow> Inl e
                       | Inr _ \<Rightarrow> Inr nextEncoded))))"

definition setCell ::
  "'s store \<Rightarrow> store_schema \<Rightarrow> string \<Rightarrow> string \<Rightarrow> string \<Rightarrow> cell_arg \<Rightarrow> 's \<Rightarrow> (error + unit) \<times> 's" where
  "setCell st mapped tableId rowId cellId cell s =
     (if \<not> store_hasRow st s tableId rowId then
        (Inl (Error (''Cannot set cell on missing row: '' @ tableId @ ''/'' @ rowId
                     @ ''. Create the row with setRow() first.'')), s)
      else
        (case getCellSchema mapped tableId cellId of
           Inl e \<Rightarrow> (Inl e, s)
         | Inr schema \<Rightarrow>
             (case cell of
                Mapper f \<Rightarrow>
                  store_setCellWith st tableId rowId cellId
                    (mapCell schema (''tables.'' @ tableId @ ''.'' @ rowId @ ''.'' @ cellId) f) s
              | Literal v \<Rightarrow>
                  (case encode schema v of
                     Inl e \<Rightarrow> (Inl e, s)
                   | Inr encoded \<Rightarrow>
                       (case assertStorageCell encoded
                               (''tables.'' @ tableId @ ''.'' @ rowId @ ''.'' @ cellId) of
                          Inl e \<Rightarrow> (Inl e, s)
                        | Inr _ \<Rightarrow>
                            if encoded = Undefined
                            then (Inr (), store_delCell st tableId rowId cellId s)
                            else (Inr (), store_setCell st tableId rowId cellId encoded s))))))"

subsection \<open>Values\<close>



primrec setValues_loop :: "store_schema \<Rightarrow> (string \<times> jsval) list \<Rightarrow> Values \<Rightarrow> error + Values" where
  "setValues_loop mapped [] encoded = Inr encoded"
| "setValues_loop mapped (entry # rest) encoded =
     (case tryGetValueSchema mapped (fst entry) of
        None \<Rightarrow> setValues_loop mapped rest encoded
      | Some valueSchema \<Rightarrow>
          (case encode valueSchema (snd entry) of
             Inl e \<Rightarrow> Inl e
           | Inr encodedValue \<Rightarrow>
               (case assertStorageCell encodedValue (''values.'' @ fst entry) of
                  Inl e \<Rightarrow> Inl e
                | Inr _ \<Rightarrow>
                    setValues_loop mapped rest
                      (if encodedValue \<noteq> Undefined
                       then assign (fst entry) encodedValue encoded else encoded))))"

definition setValues :: "'s store \<Rightarrow> store_schema \<Rightarrow> jsval obj \<Rightarrow> 's \<Rightarrow> (error + unit) \<times> 's" where
  "setValues st mapped vals s =
     (case setValues_loop mapped vals [] of
        Inl e \<Rightarrow> (Inl e, s)
      | Inr encoded \<Rightarrow> (Inr (), store_setValues st encoded s))"

definition getValue :: "'s store \<Rightarrow> store_schema \<Rightarrow> string \<Rightarrow> 's \<Rightarrow> error + jsval" where
  "getValue st mapped valueId s =
     (let v = store_getValue st s valueId in
      if v = Undefined then Inr Undefined
      else
        (case tryGetValueSchema mapped valueId of
           None \<Rightarrow> Inr Undefined
         | Some valueSchema \<Rightarrow> decode valueSchema v))"

definition setValue :: "'s store \<Rightarrow> store_schema \<Rightarrow> string \<Rightarrow> cell_arg \<Rightarrow> 's \<Rightarrow> (error + unit) \<times> 's" where
  "setValue st mapped valueId v s =
     (case tryGetValueSchema mapped valueId of
        None \<Rightarrow> (Inr (), s)
      | Some valueSchema \<Rightarrow>
          (case v of
             Mapper f \<Rightarrow>
               store_setValueWith st valueId (mapCell valueSchema (''values.'' @ valueId) f) s
           | Literal x \<Rightarrow>
               (case encode valueSchema x of
                  Inl e \<Rightarrow> (Inl e, s)
                | Inr encoded \<Rightarrow>
                    (case assertStorageCell encoded (''values.'' @ valueId) of
                       Inl e \<Rightarrow> (Inl e, s)
                     | Inr _ \<Rightarrow>
                         if encoded = Undefined
                         then (Inr (), store_delValue st valueId s)
                         else (Inr (), store_setValue st valueId encoded s)))))"

subsection \<open>Listeners\<close>

text \<open>
  \<^verbatim>\<open>addCellListener\<close> and \<^verbatim>\<open>addValueListener\<close> register, with the ids and the mutator
  flag they were given, a listener that decodes what the store delivers and calls the
  application's listener with it. The ternary of the source that decodes one delivered
  value is \<open>decodeDelivered\<close>; the store's \<^verbatim>\<open>getCellChange\<close> answers
  \<^verbatim>\<open>[changed, oldCell, newCell]\<close>. The application's listener is any function of what it
  is called with (the typed store it also receives is left out).
\<close>

definition decodeDelivered :: "codec option \<Rightarrow> jsval \<Rightarrow> error + jsval" where
  "decodeDelivered schema v =
     (if v = Undefined then Inr Undefined
      else (case schema of Some sc \<Rightarrow> decode sc v | None \<Rightarrow> Inr v))"

definition getTypedCellChange ::
  "store_schema \<Rightarrow> (string \<Rightarrow> string \<Rightarrow> string \<Rightarrow> bool \<times> jsval \<times> jsval)
     \<Rightarrow> string \<Rightarrow> string \<Rightarrow> string \<Rightarrow> error + bool \<times> jsval \<times> jsval" where
  "getTypedCellChange mapped getCellChange tableId rowId cellId =
     (case getCellChange tableId rowId cellId of
        (changed, oldCell, newCell) \<Rightarrow>
          (let schema = tryGetCellSchema mapped tableId cellId in
           case decodeDelivered schema newCell of
             Inl e \<Rightarrow> Inl e
           | Inr decodedNewCell \<Rightarrow>
               (case decodeDelivered schema oldCell of
                  Inl e \<Rightarrow> Inl e
                | Inr decodedOldCell \<Rightarrow> Inr (changed, decodedOldCell, decodedNewCell))))"

definition cellListener ::
  "store_schema
     \<Rightarrow> (string \<Rightarrow> string \<Rightarrow> string \<Rightarrow> jsval \<Rightarrow> jsval
          \<Rightarrow> (string \<Rightarrow> string \<Rightarrow> string \<Rightarrow> error + bool \<times> jsval \<times> jsval) option \<Rightarrow> 'r)
     \<Rightarrow> string \<Rightarrow> string \<Rightarrow> string \<Rightarrow> jsval \<Rightarrow> jsval
     \<Rightarrow> (string \<Rightarrow> string \<Rightarrow> string \<Rightarrow> bool \<times> jsval \<times> jsval) option \<Rightarrow> error + 'r" where
  "cellListener mapped listener tableId rowId cellId newCell oldCell getCellChange =
     (let cellSchema = tryGetCellSchema mapped tableId cellId in
      case decodeDelivered cellSchema newCell of
        Inl e \<Rightarrow> Inl e
      | Inr decodedNewCell \<Rightarrow>
          (case decodeDelivered cellSchema oldCell of
             Inl e \<Rightarrow> Inl e
           | Inr decodedOldCell \<Rightarrow>
               Inr (listener tableId rowId cellId decodedNewCell decodedOldCell
                      (map_option (getTypedCellChange mapped) getCellChange))))"

definition addCellListener ::
  "(string option \<Rightarrow> string option \<Rightarrow> string option
      \<Rightarrow> (string \<Rightarrow> string \<Rightarrow> string \<Rightarrow> jsval \<Rightarrow> jsval
           \<Rightarrow> (string \<Rightarrow> string \<Rightarrow> string \<Rightarrow> bool \<times> jsval \<times> jsval) option \<Rightarrow> error + 'r)
      \<Rightarrow> bool option \<Rightarrow> 'l)
     \<Rightarrow> store_schema \<Rightarrow> string option \<Rightarrow> string option \<Rightarrow> string option
     \<Rightarrow> (string \<Rightarrow> string \<Rightarrow> string \<Rightarrow> jsval \<Rightarrow> jsval
          \<Rightarrow> (string \<Rightarrow> string \<Rightarrow> string \<Rightarrow> error + bool \<times> jsval \<times> jsval) option \<Rightarrow> 'r)
     \<Rightarrow> bool option \<Rightarrow> 'l" where
  "addCellListener store_addCellListener mapped tableId rowId cellId listener mutator =
     store_addCellListener tableId rowId cellId (cellListener mapped listener) mutator"

definition getTypedValueChange ::
  "store_schema \<Rightarrow> (string \<Rightarrow> bool \<times> jsval \<times> jsval) \<Rightarrow> string \<Rightarrow> error + bool \<times> jsval \<times> jsval" where
  "getTypedValueChange mapped getValueChange valueId =
     (case getValueChange valueId of
        (changed, oldV, newV) \<Rightarrow>
          (let schema = tryGetValueSchema mapped valueId in
           case decodeDelivered schema newV of
             Inl e \<Rightarrow> Inl e
           | Inr decodedNewV \<Rightarrow>
               (case decodeDelivered schema oldV of
                  Inl e \<Rightarrow> Inl e
                | Inr decodedOldV \<Rightarrow> Inr (changed, decodedOldV, decodedNewV))))"

definition valueListener ::
  "store_schema
     \<Rightarrow> (string \<Rightarrow> jsval \<Rightarrow> jsval \<Rightarrow> (string \<Rightarrow> error + bool \<times> jsval \<times> jsval) option \<Rightarrow> 'r)
     \<Rightarrow> string \<Rightarrow> jsval \<Rightarrow> jsval \<Rightarrow> (string \<Rightarrow> bool \<times> jsval \<times> jsval) option \<Rightarrow> error + 'r" where
  "valueListener mapped listener changedValueId newValue oldValue getValueChange =
     (let valueSchema = tryGetValueSchema mapped changedValueId in
      case decodeDelivered valueSchema newValue of
        Inl e \<Rightarrow> Inl e
      | Inr decodedNewValue \<Rightarrow>
          (case decodeDelivered valueSchema oldValue of
             Inl e \<Rightarrow> Inl e
           | Inr decodedOldValue \<Rightarrow>
               Inr (listener changedValueId decodedNewValue decodedOldValue
                      (map_option (getTypedValueChange mapped) getValueChange))))"

definition addValueListener ::
  "(string option
      \<Rightarrow> (string \<Rightarrow> jsval \<Rightarrow> jsval \<Rightarrow> (string \<Rightarrow> bool \<times> jsval \<times> jsval) option \<Rightarrow> error + 'r)
      \<Rightarrow> bool option \<Rightarrow> 'l)
     \<Rightarrow> store_schema \<Rightarrow> string option
     \<Rightarrow> (string \<Rightarrow> jsval \<Rightarrow> jsval \<Rightarrow> (string \<Rightarrow> error + bool \<times> jsval \<times> jsval) option \<Rightarrow> 'r)
     \<Rightarrow> bool option \<Rightarrow> 'l" where
  "addValueListener store_addValueListener mapped valueId listener mutator =
     store_addValueListener valueId (valueListener mapped listener) mutator"

section \<open>The field codecs (\<^verbatim>\<open>codec.ts\<close>)\<close>

text \<open>
  Modelled from the spec: the codecs are built with zod's
  \<^verbatim>\<open>z.codec(in, out, {decode, encode})\<close>, which is not part of the repository; the spec
  has a field codec as "a bidirectional transform pairing an encode function
  (application type to storage-safe type or absence) and a decode function". Here
  \<^verbatim>\<open>encode\<close> checks the application's value with the output schema, applies the
  codec's \<^verbatim>\<open>encode\<close> and checks the result with the input schema; \<^verbatim>\<open>decode\<close> runs the
  other way. \<^verbatim>\<open>z.string()\<close> admits strings, \<^verbatim>\<open>z.number()\<close> finite numbers,
  \<^verbatim>\<open>z.date()\<close> valid dates; \<^verbatim>\<open>.optional()\<close> lets \<^verbatim>\<open>undefined\<close> through.
\<close>

definition z_codec ::
  "codec \<Rightarrow> codec \<Rightarrow> (jsval \<Rightarrow> error + jsval) \<Rightarrow> (jsval \<Rightarrow> error + jsval) \<Rightarrow> codec" where
  "z_codec inSchema outSchema dec enc =
     \<lparr> encode = (\<lambda>v.
         case encode outSchema v of
           Inl e \<Rightarrow> Inl e
         | Inr b \<Rightarrow> (case enc b of Inl e \<Rightarrow> Inl e | Inr a \<Rightarrow> encode inSchema a)),
       decode = (\<lambda>stored.
         case decode inSchema stored of
           Inl e \<Rightarrow> Inl e
         | Inr a \<Rightarrow> (case dec a of Inl e \<Rightarrow> Inl e | Inr b \<Rightarrow> decode outSchema b)) \<rparr>"

definition z_check :: "(jsval \<Rightarrow> bool) \<Rightarrow> string \<Rightarrow> codec" where
  "z_check admits expected =
     \<lparr> encode = (\<lambda>v. if admits v then Inr v else Inl (ZodError (''Invalid input: expected '' @ expected))),
       decode = (\<lambda>v. if admits v then Inr v else Inl (ZodError (''Invalid input: expected '' @ expected))) \<rparr>"

definition z_string :: codec where
  "z_string = z_check (\<lambda>v. case v of Str s \<Rightarrow> True | _ \<Rightarrow> False) ''string''"

definition z_number :: codec where
  "z_number = z_check (\<lambda>v. case v of Num (Finite r) \<Rightarrow> True | _ \<Rightarrow> False) ''number''"

definition z_boolean :: codec where
  "z_boolean = z_check (\<lambda>v. case v of Bool b \<Rightarrow> True | _ \<Rightarrow> False) ''boolean''"

definition z_date :: codec where
  "z_date = z_check (\<lambda>v. case v of Date (Some t) \<Rightarrow> True | _ \<Rightarrow> False) ''date''"

definition z_any :: codec where
  "z_any = z_check (\<lambda>v. True) ''any''"

definition z_optional :: "codec \<Rightarrow> codec" where
  "z_optional inner =
     \<lparr> encode = (\<lambda>v. if v = Undefined then Inr Undefined else encode inner v),
       decode = (\<lambda>v. if v = Undefined then Inr Undefined else decode inner v) \<rparr>"

text \<open>
  Modelled from the spec: \<^verbatim>\<open>z.object(shape)\<close> is zod's; the spec's row codec "applies
  the row shape's per-field encode" and decodes "via the row shape's structural
  decode". Every field of the shape, in the shape's order, is applied to the input's
  property of that name (\<^verbatim>\<open>undefined\<close> when the input has none); a field whose result
  is \<^verbatim>\<open>undefined\<close> is kept only when the input had the key; keys outside the shape are
  dropped. The theorems below hold for every row schema; this one builds the examples.
\<close>

primrec objectFields ::
  "(codec \<Rightarrow> jsval \<Rightarrow> error + jsval) \<Rightarrow> (string \<times> codec) list \<Rightarrow> jsval obj \<Rightarrow> error + jsval obj" where
  "objectFields dir [] input = Inr []"
| "objectFields dir (field # rest) input =
     (case dir (snd field) (case map_of input (fst field) of None \<Rightarrow> Undefined | Some v \<Rightarrow> v) of
        Inl e \<Rightarrow> Inl e
      | Inr v \<Rightarrow>
          (case objectFields dir rest input of
             Inl e \<Rightarrow> Inl e
           | Inr out \<Rightarrow>
               if v = Undefined \<and> map_of input (fst field) = None then Inr out
               else Inr ((fst field, v) # out)))"

definition z_object :: "(string \<times> codec) list \<Rightarrow> zobject" where
  "z_object def =
     \<lparr> encode = (\<lambda>row.
         case row of
           Obj props \<Rightarrow> objectFields encode def props
         | _ \<Rightarrow> Inl (ZodError ''Invalid input: expected object'')),
       decode = (\<lambda>stored.
         case objectFields decode def stored of
           Inl e \<Rightarrow> Inl e
         | Inr props \<Rightarrow> Inr (Obj props)),
       shape = Some def \<rparr>"

text \<open>
  What the codecs call of the JavaScript runtime, which is not part of the repository
  either. \<^verbatim>\<open>JSON.stringify\<close>, \<^verbatim>\<open>JSON.parse\<close>,
  \<^verbatim>\<open>Date.prototype.toISOString\<close> (of a valid time value) and the parsing of a date
  string by \<^verbatim>\<open>new Date(s)\<close> are parameters; the arithmetic on numbers and
  \<^verbatim>\<open>new Date(ms)\<close> are written out. A time value is an integral number of milliseconds
  of magnitude at most 8.64e15, so that the double operations on it are exact.
\<close>

record runtime =
  JSON_stringify :: "jsval \<Rightarrow> error + jsval"
  JSON_parse :: "jsval \<Rightarrow> error + jsval"
  toISOString :: "int \<Rightarrow> string"
  Date_parse :: "string \<Rightarrow> int option"

definition isTimeValue :: "int \<Rightarrow> bool" where
  "isTimeValue t = (\<bar>t\<bar> \<le> 8640000000000000)"

definition trunc_real :: "real \<Rightarrow> int" where
  "trunc_real r = (if 0 \<le> r then \<lfloor>r\<rfloor> else \<lceil>r\<rceil>)"

definition Math_trunc :: "number \<Rightarrow> number" where
  "Math_trunc n = (case n of Finite r \<Rightarrow> Finite (of_int (trunc_real r)) | _ \<Rightarrow> n)"

definition divide_by :: "number \<Rightarrow> real \<Rightarrow> number" where
  "divide_by n k = (case n of Finite r \<Rightarrow> Finite (r / k) | _ \<Rightarrow> n)"

definition times_by :: "number \<Rightarrow> real \<Rightarrow> number" where
  "times_by n k = (case n of Finite r \<Rightarrow> Finite (r * k) | _ \<Rightarrow> n)"

definition getTime :: "int option \<Rightarrow> number" where
  "getTime t = (case t of Some ms \<Rightarrow> Finite (of_int ms) | None \<Rightarrow> NaN)"

definition TimeClip :: "number \<Rightarrow> int option" where
  "TimeClip n =
     (case n of
        Finite r \<Rightarrow> if 8640000000000000 < \<bar>r\<bar> then None else Some (trunc_real r)
      | _ \<Rightarrow> None)"

definition json :: "runtime \<Rightarrow> codec \<Rightarrow> codec" where
  "json rt schema =
     z_codec z_string schema (\<lambda>stored. JSON_parse rt stored) (\<lambda>v. JSON_stringify rt v)"

definition dateAsIso :: "runtime \<Rightarrow> codec" where
  "dateAsIso rt =
     z_codec z_string z_date
       (\<lambda>s. case s of
               Str text \<Rightarrow> Inr (Date (Date_parse rt text))
             | _ \<Rightarrow> Inl (TypeError ''not a string''))
       (\<lambda>d. case d of
               Date (Some t) \<Rightarrow> Inr (Str (toISOString rt t))
             | Date None \<Rightarrow> Inl (RangeError ''Invalid time value'')
             | _ \<Rightarrow> Inl (TypeError ''d.toISOString is not a function''))"

definition dateAsNumberMs :: codec where
  "dateAsNumberMs =
     z_codec z_number z_date
       (\<lambda>ms. case ms of
                Num n \<Rightarrow> Inr (Date (TimeClip n))
              | _ \<Rightarrow> Inl (TypeError ''not a number''))
       (\<lambda>d. case d of
               Date t \<Rightarrow> Inr (Num (getTime t))
             | _ \<Rightarrow> Inl (TypeError ''d.getTime is not a function''))"

definition dateAsNumberSeconds :: codec where
  "dateAsNumberSeconds =
     z_codec z_number z_date
       (\<lambda>seconds. case seconds of
                Num n \<Rightarrow> Inr (Date (TimeClip (times_by n 1000)))
              | _ \<Rightarrow> Inl (TypeError ''not a number''))
       (\<lambda>d. case d of
               Date t \<Rightarrow> Inr (Num (Math_trunc (divide_by (getTime t) 1000)))
             | _ \<Rightarrow> Inl (TypeError ''d.getTime is not a function''))"

section \<open>A reference store\<close>

text \<open>
  Modelled from the spec: the underlying store is TinyBase's \<^verbatim>\<open>createStore()\<close>, which
  is not part of the repository; the spec has it persist "only scalar values (strings,
  numbers, booleans, null) organized as tables of rows of named cells, plus a flat set
  of named global values" with set and delete primitives at every granularity. Where
  the spec says no more, the model follows TinyBase: the store keeps no empty row and no
  empty table; it takes \<^verbatim>\<open>null\<close>, a string, a boolean or a finite number as a cell or
  value and ignores a write of anything else, \<^verbatim>\<open>undefined\<close> included (which is why the
  typed store calls \<^verbatim>\<open>delCell\<close> and \<^verbatim>\<open>delValue\<close> itself); \<^verbatim>\<open>setRow\<close>, \<^verbatim>\<open>setTable\<close>,
  \<^verbatim>\<open>setTables\<close> and \<^verbatim>\<open>setValues\<close> replace what they name with the valid part of their
  argument (the repository's \<^verbatim>\<open>tables.test.ts\<close> and \<^verbatim>\<open>values.test.ts\<close> rely on that),
  and change nothing when no part is valid; \<^verbatim>\<open>setCell\<close> creates the row and the table
  it needs; \<^verbatim>\<open>getRow\<close> answers an empty row where none is stored; given a function,
  \<^verbatim>\<open>setCell\<close> and \<^verbatim>\<open>setValue\<close> apply it to what is stored and write the result as
  they write a value. The state of \<open>createStore\<close> is the store's content; listeners are
  not part of it, and the transactions are added to it further down.
\<close>

record tinybase =
  tablesMap :: Tables
  valuesMap :: Values

definition isValidCell :: "jsval \<Rightarrow> bool" where
  "isValidCell v =
     (case v of
        Null \<Rightarrow> True
      | Bool b \<Rightarrow> True
      | Str s \<Rightarrow> True
      | Num n \<Rightarrow> (case n of Finite r \<Rightarrow> True | _ \<Rightarrow> False)
      | _ \<Rightarrow> False)"

definition validRow :: "Row \<Rightarrow> Row" where
  "validRow row = filter (\<lambda>entry. isValidCell (snd entry)) row"

definition validTable :: "Table \<Rightarrow> Table" where
  "validTable table =
     filter (\<lambda>entry. snd entry \<noteq> []) (map (\<lambda>entry. (fst entry, validRow (snd entry))) table)"

definition validTables :: "Tables \<Rightarrow> Tables" where
  "validTables tbls =
     filter (\<lambda>entry. snd entry \<noteq> []) (map (\<lambda>entry. (fst entry, validTable (snd entry))) tbls)"

definition tb_getTable :: "tinybase \<Rightarrow> string \<Rightarrow> Table" where
  "tb_getTable s tableId = (case map_of (tablesMap s) tableId of None \<Rightarrow> [] | Some table \<Rightarrow> table)"

definition tb_getRow :: "tinybase \<Rightarrow> string \<Rightarrow> string \<Rightarrow> Row" where
  "tb_getRow s tableId rowId =
     (case map_of (tb_getTable s tableId) rowId of None \<Rightarrow> [] | Some row \<Rightarrow> row)"

definition tb_hasRow :: "tinybase \<Rightarrow> string \<Rightarrow> string \<Rightarrow> bool" where
  "tb_hasRow s tableId rowId = (map_of (tb_getTable s tableId) rowId \<noteq> None)"

definition tb_getCell :: "tinybase \<Rightarrow> string \<Rightarrow> string \<Rightarrow> string \<Rightarrow> jsval" where
  "tb_getCell s tableId rowId cellId =
     (case map_of (tb_getRow s tableId rowId) cellId of None \<Rightarrow> Undefined | Some cell \<Rightarrow> cell)"

definition tb_putTable :: "string \<Rightarrow> Table \<Rightarrow> tinybase \<Rightarrow> tinybase" where
  "tb_putTable tableId table s =
     (if table = [] then s\<lparr>tablesMap := AList.delete tableId (tablesMap s)\<rparr>
      else s\<lparr>tablesMap := AList.update tableId table (tablesMap s)\<rparr>)"

definition tb_putRow :: "string \<Rightarrow> string \<Rightarrow> Row \<Rightarrow> tinybase \<Rightarrow> tinybase" where
  "tb_putRow tableId rowId row s =
     (if row = [] then tb_putTable tableId (AList.delete rowId (tb_getTable s tableId)) s
      else tb_putTable tableId (AList.update rowId row (tb_getTable s tableId)) s)"

definition tb_setTables :: "Tables \<Rightarrow> tinybase \<Rightarrow> tinybase" where
  "tb_setTables tbls s =
     (if validTables tbls = [] then s else s\<lparr>tablesMap := validTables tbls\<rparr>)"

definition tb_setTable :: "string \<Rightarrow> Table \<Rightarrow> tinybase \<Rightarrow> tinybase" where
  "tb_setTable tableId table s =
     (if validTable table = [] then s else tb_putTable tableId (validTable table) s)"

definition tb_setRow :: "string \<Rightarrow> string \<Rightarrow> Row \<Rightarrow> tinybase \<Rightarrow> tinybase" where
  "tb_setRow tableId rowId row s =
     (if validRow row = [] then s else tb_putRow tableId rowId (validRow row) s)"

definition tb_setCell :: "string \<Rightarrow> string \<Rightarrow> string \<Rightarrow> jsval \<Rightarrow> tinybase \<Rightarrow> tinybase" where
  "tb_setCell tableId rowId cellId cell s =
     (if isValidCell cell
      then tb_putRow tableId rowId (AList.update cellId cell (tb_getRow s tableId rowId)) s
      else s)"

definition tb_setCellWith ::
  "string \<Rightarrow> string \<Rightarrow> string \<Rightarrow> (jsval \<Rightarrow> error + jsval) \<Rightarrow> tinybase \<Rightarrow> (error + unit) \<times> tinybase" where
  "tb_setCellWith tableId rowId cellId mapper s =
     (case mapper (tb_getCell s tableId rowId cellId) of
        Inl e \<Rightarrow> (Inl e, s)
      | Inr cell \<Rightarrow> (Inr (), tb_setCell tableId rowId cellId cell s))"

definition tb_delCell :: "string \<Rightarrow> string \<Rightarrow> string \<Rightarrow> tinybase \<Rightarrow> tinybase" where
  "tb_delCell tableId rowId cellId s =
     tb_putRow tableId rowId (AList.delete cellId (tb_getRow s tableId rowId)) s"

definition tb_getValue :: "tinybase \<Rightarrow> string \<Rightarrow> jsval" where
  "tb_getValue s valueId = (case map_of (valuesMap s) valueId of None \<Rightarrow> Undefined | Some v \<Rightarrow> v)"

definition tb_setValues :: "Values \<Rightarrow> tinybase \<Rightarrow> tinybase" where
  "tb_setValues vals s = (if validRow vals = [] then s else s\<lparr>valuesMap := validRow vals\<rparr>)"

definition tb_setValue :: "string \<Rightarrow> jsval \<Rightarrow> tinybase \<Rightarrow> tinybase" where
  "tb_setValue valueId v s =
     (if isValidCell v then s\<lparr>valuesMap := AList.update valueId v (valuesMap s)\<rparr> else s)"

definition tb_setValueWith ::
  "string \<Rightarrow> (jsval \<Rightarrow> error + jsval) \<Rightarrow> tinybase \<Rightarrow> (error + unit) \<times> tinybase" where
  "tb_setValueWith valueId mapper s =
     (case mapper (tb_getValue s valueId) of
        Inl e \<Rightarrow> (Inl e, s)
      | Inr v \<Rightarrow> (Inr (), tb_setValue valueId v s))"

definition tb_delValue :: "string \<Rightarrow> tinybase \<Rightarrow> tinybase" where
  "tb_delValue valueId s = s\<lparr>valuesMap := AList.delete valueId (valuesMap s)\<rparr>"

definition createStore :: "tinybase store" where
  "createStore =
     \<lparr> store_getTables = tablesMap,
       store_setTables = tb_setTables,
       store_getTable = tb_getTable,
       store_setTable = tb_setTable,
       store_getRow = (\<lambda>s tableId rowId. Some (tb_getRow s tableId rowId)),
       store_setRow = tb_setRow,
       store_hasRow = tb_hasRow,
       store_getCell = tb_getCell,
       store_setCell = tb_setCell,
       store_setCellWith = tb_setCellWith,
       store_delCell = tb_delCell,
       store_getValues = valuesMap,
       store_setValues = tb_setValues,
       store_getValue = tb_getValue,
       store_setValue = tb_setValue,
       store_setValueWith = tb_setValueWith,
       store_delValue = tb_delValue \<rparr>"

text \<open>
  TinyBase runs every write in a transaction of its own: it starts one, does the write
  and finishes it, and it calls a function given to \<^verbatim>\<open>setCell\<close> or \<^verbatim>\<open>setValue\<close> in
  between. When the function throws, the exception leaves the store before the
  transaction is finished: nothing is written and the transaction stays open.
  \<open>inTransactions st\<close> is the store \<open>st\<close> with the number of transactions that are open
  beside its state.
\<close>

definition inTransactions :: "'s store \<Rightarrow> ('s \<times> nat) store" where
  "inTransactions st =
     \<lparr> store_getTables = (\<lambda>p. store_getTables st (fst p)),
       store_setTables = (\<lambda>tbls p. (store_setTables st tbls (fst p), snd p)),
       store_getTable = (\<lambda>p. store_getTable st (fst p)),
       store_setTable = (\<lambda>tableId table p. (store_setTable st tableId table (fst p), snd p)),
       store_getRow = (\<lambda>p. store_getRow st (fst p)),
       store_setRow = (\<lambda>tableId rowId row p. (store_setRow st tableId rowId row (fst p), snd p)),
       store_hasRow = (\<lambda>p. store_hasRow st (fst p)),
       store_getCell = (\<lambda>p. store_getCell st (fst p)),
       store_setCell = (\<lambda>tableId rowId cellId cell p.
         (store_setCell st tableId rowId cellId cell (fst p), snd p)),
       store_setCellWith = (\<lambda>tableId rowId cellId mapper p.
         case store_setCellWith st tableId rowId cellId mapper (fst p) of
           (Inl e, s) \<Rightarrow> (Inl e, (s, Suc (snd p)))
         | (Inr u, s) \<Rightarrow> (Inr u, (s, snd p))),
       store_delCell = (\<lambda>tableId rowId cellId p. (store_delCell st tableId rowId cellId (fst p), snd p)),
       store_getValues = (\<lambda>p. store_getValues st (fst p)),
       store_setValues = (\<lambda>vals p. (store_setValues st vals (fst p), snd p)),
       store_getValue = (\<lambda>p. store_getValue st (fst p)),
       store_setValue = (\<lambda>valueId v p. (store_setValue st valueId v (fst p), snd p)),
       store_setValueWith = (\<lambda>valueId mapper p.
         case store_setValueWith st valueId mapper (fst p) of
           (Inl e, s) \<Rightarrow> (Inl e, (s, Suc (snd p)))
         | (Inr u, s) \<Rightarrow> (Inr u, (s, snd p))),
       store_delValue = (\<lambda>valueId p. (store_delValue st valueId (fst p), snd p)) \<rparr>"

text \<open>
  A value the scalar guard refuses: neither \<^verbatim>\<open>undefined\<close> nor a storage cell.
\<close>

definition offending :: "jsval \<Rightarrow> bool" where
  "offending v = (v \<noteq> Undefined \<and> \<not> isStorageCell v)"

section \<open>Declarations used as examples\<close>

text \<open>
  A declaration in the style of the repository's tests: a table \<^verbatim>\<open>t\<close> with a string, a
  number, a JSON cell and an optional string; a table \<^verbatim>\<open>u\<close> with an optional bare
  \<^verbatim>\<open>z.date()\<close> cell (which encodes to a \<^verbatim>\<open>Date\<close> object, as in the "rejections" test); a
  table \<^verbatim>\<open>w\<close> with a cell whose schema throws in both directions; a table \<^verbatim>\<open>raw\<close> with
  a \<^verbatim>\<open>z.any()\<close> cell; values of the same kinds. The example runtime serialises one
  array and one date.
\<close>

definition failing :: codec where
  "failing =
     \<lparr> encode = (\<lambda>v. Inl (ZodError ''unsupported'')),
       decode = (\<lambda>v. Inl (ZodError ''unsupported'')) \<rparr>"

definition emptyStore :: tinybase where
  "emptyStore = \<lparr> tablesMap = [], valuesMap = [] \<rparr>"

definition testRuntime :: runtime where
  "testRuntime =
     \<lparr> JSON_stringify = (\<lambda>v.
         if v = Arr [Str ''a'', Str ''b''] then Inr (Str ''[a,b]'')
         else if v = Undefined then Inr Undefined
         else Inl (TypeError ''not serialised here'')),
       JSON_parse = (\<lambda>v.
         if v = Str ''[a,b]'' then Inr (Arr [Str ''a'', Str ''b''])
         else Inl (SyntaxError ''Unexpected token'')),
       toISOString = (\<lambda>t. if t = 0 then ''1970-01-01T00:00:00.000Z'' else []),
       Date_parse = (\<lambda>text. if text = ''1970-01-01T00:00:00.000Z'' then Some 0 else None) \<rparr>"

definition testSchema :: store_schema where
  "testSchema =
     \<lparr> tables =
         [(''t'', z_object [(''s'', z_string), (''n'', z_number), (''a'', json testRuntime z_any),
                           (''opt'', z_optional z_string)]),
          (''u'', z_object [(''s'', z_string), (''d'', z_optional z_date)]),
          (''w'', z_object [(''x'', failing)]),
          (''raw'', z_object [(''any'', z_any)])],
       valuesSchema =
         z_object [(''vStr'', z_string), (''vAny'', z_any), (''vOpt'', z_optional z_string),
                   (''vDate'', z_date), (''vBad'', failing)] \<rparr>"

definition seededStore :: tinybase where
  "seededStore =
     \<lparr> tablesMap = [(''u'', [(''1'', [(''s'', Str ''b'')])])],
       valuesMap = [(''vStr'', Str ''a'')] \<rparr>"


section \<open>Facts about the examples\<close>

lemma getProperty_simps:
  "getProperty [] inherited key = (if key \<in> set Object_prototype then Some inherited else None)"
  "getProperty ((k, v) # obj) inherited key
     = (if k = key then Some v else getProperty obj inherited key)"
  by (simp_all add: getProperty_def)

lemma inherited_simps:
  "shape inheritedRowMember = None"
  "encode inheritedRowMember row = Inl (TypeError ''schema.encode is not a function'')"
  "decode inheritedRowMember stored = Inl (TypeError ''schema.decode is not a function'')"
  "encode inheritedMember v = Inl (TypeError ''schema.encode is not a function'')"
  "decode inheritedMember v = Inl (TypeError ''schema.decode is not a function'')"
  by (simp_all add: inheritedRowMember_def inheritedMember_def)

lemma testSchema_tables:
  "map_of (tables testSchema) ''t''
     = Some (z_object [(''s'', z_string), (''n'', z_number), (''a'', json testRuntime z_any),
                       (''opt'', z_optional z_string)])"
  "map_of (tables testSchema) ''u''
     = Some (z_object [(''s'', z_string), (''d'', z_optional z_date)])"
  "map_of (tables testSchema) ''w'' = Some (z_object [(''x'', failing)])"
  "map_of (tables testSchema) ''raw'' = Some (z_object [(''any'', z_any)])"
  "map_of (tables testSchema) ''nope'' = None"
  "map_of (tables testSchema) ''constructor'' = None"
  by (simp_all add: testSchema_def)

lemma testSchema_table_schemas:
  "getProperty (tables testSchema) inheritedRowMember ''t''
     = Some (z_object [(''s'', z_string), (''n'', z_number), (''a'', json testRuntime z_any),
                       (''opt'', z_optional z_string)])"
  "getProperty (tables testSchema) inheritedRowMember ''u''
     = Some (z_object [(''s'', z_string), (''d'', z_optional z_date)])"
  "getProperty (tables testSchema) inheritedRowMember ''w'' = Some (z_object [(''x'', failing)])"
  "getProperty (tables testSchema) inheritedRowMember ''raw'' = Some (z_object [(''any'', z_any)])"
  "getProperty (tables testSchema) inheritedRowMember ''nope'' = None"
  "getProperty (tables testSchema) inheritedRowMember ''constructor'' = Some inheritedRowMember"
  by (simp_all add: testSchema_def getProperty_simps Object_prototype_def)

lemma testSchema_values:
  "shape (valuesSchema testSchema)
     = Some [(''vStr'', z_string), (''vAny'', z_any), (''vOpt'', z_optional z_string),
             (''vDate'', z_date), (''vBad'', failing)]"
  by (simp add: testSchema_def z_object_def)

lemma testSchema_value_schemas:
  "tryGetValueSchema testSchema ''vStr'' = Some z_string"
  "tryGetValueSchema testSchema ''vAny'' = Some z_any"
  "tryGetValueSchema testSchema ''vOpt'' = Some (z_optional z_string)"
  "tryGetValueSchema testSchema ''vDate'' = Some z_date"
  "tryGetValueSchema testSchema ''vBad'' = Some failing"
  "tryGetValueSchema testSchema ''extra'' = None"
  "tryGetValueSchema testSchema ''constructor'' = Some inheritedMember"
  by (simp_all add: tryGetValueSchema_def testSchema_values getProperty_simps Object_prototype_def)

lemma createStore_simps:
  "store_getTables createStore = tablesMap"
  "store_setTables createStore = tb_setTables"
  "store_getTable createStore = tb_getTable"
  "store_setTable createStore = tb_setTable"
  "store_getRow createStore = (\<lambda>s tableId rowId. Some (tb_getRow s tableId rowId))"
  "store_setRow createStore = tb_setRow"
  "store_hasRow createStore = tb_hasRow"
  "store_getCell createStore = tb_getCell"
  "store_setCell createStore = tb_setCell"
  "store_setCellWith createStore = tb_setCellWith"
  "store_delCell createStore = tb_delCell"
  "store_getValues createStore = valuesMap"
  "store_setValues createStore = tb_setValues"
  "store_getValue createStore = tb_getValue"
  "store_setValue createStore = tb_setValue"
  "store_setValueWith createStore = tb_setValueWith"
  "store_delValue createStore = tb_delValue"
  by (simp_all add: createStore_def)

section \<open>The scalar guard\<close>

text \<open>
  C10, as the code has it. The scalar guard accepts exactly \<^verbatim>\<open>null\<close>, \<^verbatim>\<open>undefined\<close> and the
  values whose \<^verbatim>\<open>typeof\<close> is string, number or boolean. In particular it accepts \<^verbatim>\<open>NaN\<close>,
  \<^verbatim>\<open>Infinity\<close> and \<^verbatim>\<open>-Infinity\<close>: whenever a value's or a cell's schema encodes to a
  number, whichever number, \<^verbatim>\<open>setValue\<close> and \<^verbatim>\<open>setCell\<close> do not raise and call the
  underlying store's \<^verbatim>\<open>setValue\<close> and \<^verbatim>\<open>setCell\<close> with it; this holds for every store.
  What then is stored is the store's doing: the reference store, as TinyBase, ignores
  the write of a number that is not finite, so that after the call it is in the state
  it was in and the number is not stored.
\<close>

theorem scalar_guard_accepts_exactly:
  "(assertStorageCell v context = Inr ()) =
     (v = Null \<or> v = Undefined \<or> typeof v = ''string'' \<or> typeof v = ''number''
      \<or> typeof v = ''boolean'')
   \<and> assertStorageCell (Num NaN) context = Inr ()
   \<and> assertStorageCell (Num PosInfinity) context = Inr ()
   \<and> assertStorageCell (Num NegInfinity) context = Inr ()
   \<and> (tryGetValueSchema mapped valueId = Some sc \<and> encode sc x = Inr (Num n)
        \<longrightarrow> setValue st mapped valueId (Literal x) s
            = (Inr (), store_setValue st valueId (Num n) s))
   \<and> (store_hasRow st s tableId rowId \<and> getCellSchema mapped tableId cellId = Inr sc'
        \<and> encode sc' x' = Inr (Num n')
        \<longrightarrow> setCell st mapped tableId rowId cellId (Literal x') s
            = (Inr (), store_setCell st tableId rowId cellId (Num n') s))
   \<and> (tryGetValueSchema mapped valueId = Some sc \<and> encode sc x = Inr (Num n)
        \<and> n \<in> {NaN, PosInfinity, NegInfinity}
        \<longrightarrow> setValue createStore mapped valueId (Literal x) b = (Inr (), b))
   \<and> (store_hasRow createStore b tableId rowId \<and> getCellSchema mapped tableId cellId = Inr sc'
        \<and> encode sc' x' = Inr (Num n') \<and> n' \<in> {NaN, PosInfinity, NegInfinity}
        \<longrightarrow> setCell createStore mapped tableId rowId cellId (Literal x') b = (Inr (), b))"
  by (auto simp: assertStorageCell_def isStorageCell_def setValue_def setCell_def
      createStore_def tb_setValue_def tb_setCell_def isValidCell_def)

theorem scalar_guard_accepts_exactly_witness:
  "tryGetValueSchema testSchema ''vAny'' = Some z_any
   \<and> encode z_any (Num NaN) = Inr (Num NaN)
   \<and> setValue createStore testSchema ''vAny'' (Literal (Num NaN)) emptyStore
       = (Inr (), store_setValue createStore ''vAny'' (Num NaN) emptyStore)
   \<and> setValue createStore testSchema ''vAny'' (Literal (Num NaN)) emptyStore
       = (Inr (), emptyStore)
   \<and> store_hasRow createStore \<lparr>tablesMap = [(''raw'', [(''1'', [(''any'', Str ''x'')])])], valuesMap = []\<rparr>
        ''raw'' ''1''
   \<and> getCellSchema testSchema ''raw'' ''any'' = Inr z_any
   \<and> encode z_any (Num PosInfinity) = Inr (Num PosInfinity)
   \<and> setCell createStore testSchema ''raw'' ''1'' ''any'' (Literal (Num PosInfinity))
        \<lparr>tablesMap = [(''raw'', [(''1'', [(''any'', Str ''x'')])])], valuesMap = []\<rparr>
       = (Inr (), store_setCell createStore ''raw'' ''1'' ''any'' (Num PosInfinity)
            \<lparr>tablesMap = [(''raw'', [(''1'', [(''any'', Str ''x'')])])], valuesMap = []\<rparr>)
   \<and> setCell createStore testSchema ''raw'' ''1'' ''any'' (Literal (Num PosInfinity))
        \<lparr>tablesMap = [(''raw'', [(''1'', [(''any'', Str ''x'')])])], valuesMap = []\<rparr>
       = (Inr (), \<lparr>tablesMap = [(''raw'', [(''1'', [(''any'', Str ''x'')])])], valuesMap = []\<rparr>)"
  using scalar_guard_accepts_exactly[where mapped = testSchema and valueId = "''vAny''"
      and sc = z_any and x = "Num NaN" and n = NaN and st = createStore and s = emptyStore
      and b = emptyStore]
    scalar_guard_accepts_exactly[where mapped = testSchema and st = createStore
      and s = "\<lparr>tablesMap = [(''raw'', [(''1'', [(''any'', Str ''x'')])])], valuesMap = []\<rparr>"
      and b = "\<lparr>tablesMap = [(''raw'', [(''1'', [(''any'', Str ''x'')])])], valuesMap = []\<rparr>"
      and tableId = "''raw''" and rowId = "''1''" and cellId = "''any''" and sc' = z_any
      and x' = "Num PosInfinity" and n' = PosInfinity]
  by (simp add: testSchema_value_schemas getCellSchema_def testSchema_table_schemas
      getProperty_simps z_object_def z_any_def z_check_def createStore_simps tb_hasRow_def
      tb_getTable_def tb_setValue_def tb_setCell_def isValidCell_def)

theorem nonfinite_number_not_stored_counterexample:
  "assertStorageCell (Num NaN) ''values.vAny'' = Inr ()
   \<and> setValue createStore testSchema ''vAny'' (Literal (Num NaN)) emptyStore
       = (Inr (), emptyStore)
   \<and> store_getValue createStore
        (snd (setValue createStore testSchema ''vAny'' (Literal (Num NaN)) emptyStore)) ''vAny''
       = Undefined
   \<and> setCell createStore testSchema ''raw'' ''1'' ''any'' (Literal (Num PosInfinity))
        \<lparr>tablesMap = [(''raw'', [(''1'', [(''any'', Str ''x'')])])], valuesMap = []\<rparr>
       = (Inr (), \<lparr>tablesMap = [(''raw'', [(''1'', [(''any'', Str ''x'')])])], valuesMap = []\<rparr>)
   \<and> store_getCell createStore
        (snd (setCell createStore testSchema ''raw'' ''1'' ''any'' (Literal (Num PosInfinity))
           \<lparr>tablesMap = [(''raw'', [(''1'', [(''any'', Str ''x'')])])], valuesMap = []\<rparr>))
        ''raw'' ''1'' ''any''
       = Str ''x''"
  by (simp add: assertStorageCell_def isStorageCell_def setValue_def setCell_def
      testSchema_value_schemas getCellSchema_def testSchema_table_schemas getProperty_simps
      z_object_def z_any_def z_check_def createStore_simps tb_hasRow_def tb_getTable_def
      tb_setValue_def tb_setCell_def isValidCell_def tb_getValue_def tb_getCell_def
      tb_getRow_def emptyStore_def)

section \<open>The row-creation guard\<close>

text \<open>
  C3. Whatever the table id, row id, cell id and payload (a value or a function), and
  whatever the declaration, \<^verbatim>\<open>setCell\<close> raises the missing-row error when the underlying
  store has no such row, and leaves the store as it was.
\<close>

theorem setCell_missing_row:
  "\<not> store_hasRow st s tableId rowId \<Longrightarrow>
   setCell st mapped tableId rowId cellId cell s = (Inl (MissingRowError tableId rowId), s)"
  by (simp add: setCell_def MissingRowError_def)

theorem setCell_missing_row_witness:
  "\<not> store_hasRow createStore emptyStore ''t'' ''missingRow''
   \<and> setCell createStore testSchema ''t'' ''missingRow'' ''s'' (Literal (Str ''x'')) emptyStore
       = (Inl (MissingRowError ''t'' ''missingRow''), emptyStore)"
  using setCell_missing_row[of createStore emptyStore "''t''" "''missingRow''" testSchema
      "''s''" "Literal (Str ''x'')"]
  by (simp add: createStore_def tb_hasRow_def tb_getTable_def emptyStore_def)

section \<open>Reads of what is not stored\<close>

text \<open>
  C8. For a declared table, \<^verbatim>\<open>getRow\<close> returns \<^verbatim>\<open>undefined\<close> when the store answers
  \<^verbatim>\<open>undefined\<close> or a row without cells, and the row schema's decoding of the stored
  row otherwise. The first two results hold for every row schema, also one whose
  \<^verbatim>\<open>decode\<close> throws on every input: no decoding takes part in them.
\<close>

theorem getRow_absent_or_decoded:
  "getRowSchema mapped tableId = Inr schema \<Longrightarrow>
     (store_getRow st s tableId rowId = None
        \<longrightarrow> getRow st mapped tableId rowId s = Inr Undefined)
   \<and> (store_getRow st s tableId rowId = Some []
        \<longrightarrow> getRow st mapped tableId rowId s = Inr Undefined)
   \<and> (store_getRow st s tableId rowId = Some row \<and> row \<noteq> []
        \<longrightarrow> getRow st mapped tableId rowId s = decode schema row)"
  by (simp add: getRow_def)

theorem getRow_absent_or_decoded_witness:
  "getRowSchema testSchema ''w'' = Inr (z_object [(''x'', failing)])
   \<and> store_getRow (createStore\<lparr>store_getRow := (\<lambda>s t r. None)\<rparr>) emptyStore ''w'' ''1'' = None
   \<and> getRow (createStore\<lparr>store_getRow := (\<lambda>s t r. None)\<rparr>) testSchema ''w'' ''1'' emptyStore
       = Inr Undefined
   \<and> store_getRow createStore emptyStore ''w'' ''1'' = Some []
   \<and> getRow createStore testSchema ''w'' ''1'' emptyStore = Inr Undefined
   \<and> store_getRow createStore \<lparr>tablesMap = [(''w'', [(''1'', [(''x'', Str ''b'')])])], valuesMap = []\<rparr>
        ''w'' ''1'' = Some [(''x'', Str ''b'')]
   \<and> getRow createStore testSchema ''w'' ''1''
        \<lparr>tablesMap = [(''w'', [(''1'', [(''x'', Str ''b'')])])], valuesMap = []\<rparr>
       = Inl (ZodError ''unsupported'')"
  using getRow_absent_or_decoded[of testSchema "''w''" "z_object [(''x'', failing)]"
      "createStore\<lparr>store_getRow := (\<lambda>s t r. None)\<rparr>" emptyStore "''1''" "[]"]
    getRow_absent_or_decoded[of testSchema "''w''" "z_object [(''x'', failing)]"
      createStore emptyStore "''1''" "[]"]
    getRow_absent_or_decoded[of testSchema "''w''" "z_object [(''x'', failing)]"
      createStore "\<lparr>tablesMap = [(''w'', [(''1'', [(''x'', Str ''b'')])])], valuesMap = []\<rparr>"
      "''1''" "[(''x'', Str ''b'')]"]
  by (simp add: getRowSchema_def testSchema_table_schemas createStore_simps tb_getRow_def
      tb_getTable_def emptyStore_def z_object_def failing_def)

text \<open>
  C9. For a declared cell, \<^verbatim>\<open>getCell\<close> returns \<^verbatim>\<open>undefined\<close> when the store holds no
  cell there, and \<^verbatim>\<open>getValue\<close> returns \<^verbatim>\<open>undefined\<close> when the store holds no such
  value; both for every schema, also one whose \<^verbatim>\<open>decode\<close> throws on every input.
\<close>

theorem getCell_getValue_absent:
  "(getCellSchema mapped tableId cellId = Inr sc
      \<and> store_getCell st s tableId rowId cellId = Undefined
      \<longrightarrow> getCell st mapped tableId rowId cellId s = Inr Undefined)
   \<and> (store_getValue st s valueId = Undefined
      \<longrightarrow> getValue st mapped valueId s = Inr Undefined)"
  by (simp add: getCell_def getValue_def)

theorem getCell_getValue_absent_witness:
  "getCellSchema testSchema ''w'' ''x'' = Inr failing
   \<and> decode failing (Str ''b'') = Inl (ZodError ''unsupported'')
   \<and> store_getCell createStore emptyStore ''w'' ''1'' ''x'' = Undefined
   \<and> getCell createStore testSchema ''w'' ''1'' ''x'' emptyStore = Inr Undefined
   \<and> tryGetValueSchema testSchema ''vBad'' = Some failing
   \<and> store_getValue createStore emptyStore ''vBad'' = Undefined
   \<and> getValue createStore testSchema ''vBad'' emptyStore = Inr Undefined"
  using getCell_getValue_absent[of testSchema "''w''" "''x''" failing createStore emptyStore
      "''1''" "''vBad''"]
  by (simp add: getCellSchema_def testSchema_value_schemas testSchema_table_schemas
      getProperty_simps z_object_def createStore_simps tb_getCell_def tb_getRow_def
      tb_getTable_def tb_getValue_def emptyStore_def failing_def)

section \<open>Ids outside the declaration\<close>

text \<open>
  C4, as the code has it. The ids meant are those that the declaration does not have
  and that do not name a member of \<^verbatim>\<open>Object.prototype\<close>: for them the lookups of the
  typed store find nothing. For such a value id \<^verbatim>\<open>setValue\<close> (with a value or a function)
  changes nothing and raises nothing, and \<^verbatim>\<open>getValue\<close> returns \<^verbatim>\<open>undefined\<close>. For such a
  table id \<^verbatim>\<open>getTable\<close>, \<^verbatim>\<open>setTable\<close>, \<^verbatim>\<open>setRow\<close> and \<^verbatim>\<open>getCell\<close> raise the
  unknown-table error, and for such a cell id of a declared table \<^verbatim>\<open>getCell\<close> raises the
  unknown-cell error; the writes leave the store as it was. \<^verbatim>\<open>setCell\<close> looks for the
  row first: it raises the unknown-id error when the store has the row, and the
  missing-row error when it has not.
\<close>

theorem undeclared_ids_single_entity:
  "(shape (valuesSchema mapped) = Some valueShape \<and> map_of valueShape valueId = None
      \<and> valueId \<notin> set Object_prototype \<longrightarrow>
       setValue st mapped valueId v s = (Inr (), s)
     \<and> getValue st mapped valueId s = Inr Undefined)
   \<and> (map_of (tables mapped) tableId = None \<and> tableId \<notin> set Object_prototype \<longrightarrow>
       getTable st mapped tableId s = Inl (UnknownTableError tableId)
     \<and> setTable st mapped tableId table s = (Inl (UnknownTableError tableId), s)
     \<and> setRow st mapped tableId rowId row s = (Inl (UnknownTableError tableId), s)
     \<and> getCell st mapped tableId rowId cellId s = Inl (UnknownTableError tableId)
     \<and> setCell st mapped tableId rowId cellId cell s
        = (if store_hasRow st s tableId rowId then (Inl (UnknownTableError tableId), s)
           else (Inl (MissingRowError tableId rowId), s)))
   \<and> (map_of (tables mapped) tableId = Some schema \<and> shape schema = Some rowShape
      \<and> map_of rowShape cellId = None \<and> cellId \<notin> set Object_prototype \<longrightarrow>
       getCell st mapped tableId rowId cellId s = Inl (UnknownCellError tableId cellId)
     \<and> setCell st mapped tableId rowId cellId cell s
        = (if store_hasRow st s tableId rowId then (Inl (UnknownCellError tableId cellId), s)
           else (Inl (MissingRowError tableId rowId), s)))"
  by (auto simp: setValue_def getValue_def getTable_def setTable_def setRow_def getCell_def
      setCell_def getRowSchema_def getCellSchema_def tryGetValueSchema_def getProperty_def
      UnknownTableError_def UnknownCellError_def MissingRowError_def Let_def)

theorem undeclared_ids_single_entity_witness:
  "shape (valuesSchema testSchema)
     = Some [(''vStr'', z_string), (''vAny'', z_any), (''vOpt'', z_optional z_string),
             (''vDate'', z_date), (''vBad'', failing)]
   \<and> map_of [(''vStr'', z_string), (''vAny'', z_any), (''vOpt'', z_optional z_string),
              (''vDate'', z_date), (''vBad'', failing)] ''extra'' = None
   \<and> ''extra'' \<notin> set Object_prototype
   \<and> setValue createStore testSchema ''extra'' (Literal (Str ''nope''))
        \<lparr>tablesMap = [(''nope'', [(''1'', [(''any'', Str ''thing'')])])], valuesMap = []\<rparr>
       = (Inr (), \<lparr>tablesMap = [(''nope'', [(''1'', [(''any'', Str ''thing'')])])], valuesMap = []\<rparr>)
   \<and> map_of (tables testSchema) ''nope'' = None
   \<and> ''nope'' \<notin> set Object_prototype
   \<and> store_hasRow createStore
        \<lparr>tablesMap = [(''nope'', [(''1'', [(''any'', Str ''thing'')])])], valuesMap = []\<rparr> ''nope'' ''1''
   \<and> setCell createStore testSchema ''nope'' ''1'' ''any'' (Literal (Str ''x''))
        \<lparr>tablesMap = [(''nope'', [(''1'', [(''any'', Str ''thing'')])])], valuesMap = []\<rparr>
       = (Inl (UnknownTableError ''nope''),
          \<lparr>tablesMap = [(''nope'', [(''1'', [(''any'', Str ''thing'')])])], valuesMap = []\<rparr>)
   \<and> getTable createStore testSchema ''nope''
        \<lparr>tablesMap = [(''nope'', [(''1'', [(''any'', Str ''thing'')])])], valuesMap = []\<rparr>
       = Inl (UnknownTableError ''nope'')
   \<and> map_of (tables testSchema) ''u''
       = Some (z_object [(''s'', z_string), (''d'', z_optional z_date)])
   \<and> shape (z_object [(''s'', z_string), (''d'', z_optional z_date)])
       = Some [(''s'', z_string), (''d'', z_optional z_date)]
   \<and> map_of [(''s'', z_string), (''d'', z_optional z_date)] ''any'' = None
   \<and> ''any'' \<notin> set Object_prototype
   \<and> getCell createStore testSchema ''u'' ''1'' ''any''
        \<lparr>tablesMap = [(''nope'', [(''1'', [(''any'', Str ''thing'')])])], valuesMap = []\<rparr>
       = Inl (UnknownCellError ''u'' ''any'')"
  using undeclared_ids_single_entity[where mapped = testSchema and valueId = "''extra''"
      and valueShape = "[(''vStr'', z_string), (''vAny'', z_any), (''vOpt'', z_optional z_string),
             (''vDate'', z_date), (''vBad'', failing)]"
      and st = createStore and v = "Literal (Str ''nope'')"
      and s = "\<lparr>tablesMap = [(''nope'', [(''1'', [(''any'', Str ''thing'')])])], valuesMap = []\<rparr>"
      and tableId = "''nope''" and table = "Obj []" and rowId = "''1''" and row = "Obj []"
      and cellId = "''any''" and cell = "Literal (Str ''x'')"]
    undeclared_ids_single_entity[where mapped = testSchema and valueId = "''extra''"
      and valueShape = "[(''vStr'', z_string), (''vAny'', z_any), (''vOpt'', z_optional z_string),
             (''vDate'', z_date), (''vBad'', failing)]"
      and st = createStore and v = "Literal (Str ''nope'')"
      and s = "\<lparr>tablesMap = [(''nope'', [(''1'', [(''any'', Str ''thing'')])])], valuesMap = []\<rparr>"
      and tableId = "''u''" and table = "Obj []" and rowId = "''1''" and row = "Obj []"
      and cellId = "''any''" and cell = "Literal (Str ''x'')"
      and schema = "z_object [(''s'', z_string), (''d'', z_optional z_date)]"
      and rowShape = "[(''s'', z_string), (''d'', z_optional z_date)]"]
  by (simp add: testSchema_tables testSchema_values z_object_def Object_prototype_def
      createStore_simps tb_hasRow_def tb_getTable_def)

text \<open>
  Where the claim fails: on an undeclared table whose row the store does not hold,
  \<^verbatim>\<open>setCell\<close> raises the missing-row error and not an unknown-id error; and for the
  undeclared id \<^verbatim>\<open>constructor\<close>, which names a member of \<^verbatim>\<open>Object.prototype\<close>, \<^verbatim>\<open>setValue\<close>
  raises a \<^verbatim>\<open>TypeError\<close>, \<^verbatim>\<open>getTable\<close> returns an empty table and \<^verbatim>\<open>getCell\<close> returns
  \<^verbatim>\<open>undefined\<close>.
\<close>

theorem setCell_undeclared_table_counterexample:
  "map_of (tables testSchema) ''nope'' = None
   \<and> setCell createStore testSchema ''nope'' ''1'' ''any'' (Literal (Str ''x'')) emptyStore
       = (Inl (MissingRowError ''nope'' ''1''), emptyStore)
   \<and> MissingRowError ''nope'' ''1'' \<noteq> UnknownTableError ''nope''
   \<and> MissingRowError ''nope'' ''1'' \<noteq> UnknownCellError ''nope'' ''any''
   \<and> shape (valuesSchema testSchema)
       = Some [(''vStr'', z_string), (''vAny'', z_any), (''vOpt'', z_optional z_string),
               (''vDate'', z_date), (''vBad'', failing)]
   \<and> map_of [(''vStr'', z_string), (''vAny'', z_any), (''vOpt'', z_optional z_string),
              (''vDate'', z_date), (''vBad'', failing)] ''constructor'' = None
   \<and> setValue createStore testSchema ''constructor'' (Literal (Str ''x'')) emptyStore
       = (Inl (TypeError ''schema.encode is not a function''), emptyStore)
   \<and> map_of (tables testSchema) ''constructor'' = None
   \<and> getTable createStore testSchema ''constructor'' emptyStore = Inr (Obj [])
   \<and> map_of [(''s'', z_string), (''d'', z_optional z_date)] ''constructor'' = None
   \<and> getCell createStore testSchema ''u'' ''1'' ''constructor'' seededStore = Inr Undefined"
  by (simp add: testSchema_tables testSchema_values setCell_def setValue_def getTable_def
      getCell_def getRowSchema_def getCellSchema_def testSchema_table_schemas
      testSchema_value_schemas getProperty_simps Object_prototype_def z_object_def
      inherited_simps record_decode_def
      createStore_simps tb_hasRow_def tb_getTable_def tb_getCell_def tb_getRow_def
      emptyStore_def seededStore_def MissingRowError_def UnknownTableError_def
      UnknownCellError_def)

section \<open>Writes that the scalar guard refuses\<close>

lemma assert_offending:
  "offending v \<Longrightarrow> assertStorageCell v context = Inl (StorageTypeError context (typeof v))"
  by (simp add: offending_def assertStorageCell_def StorageTypeError_def)

lemma assert_not_offending: "\<not> offending v \<Longrightarrow> assertStorageCell v context = Inr ()"
  by (auto simp: offending_def assertStorageCell_def)

lemma StorageTypeError_names_path:
  "\<exists>msg. StorageTypeError context got = Error msg \<and> sublist context msg"
  unfolding StorageTypeError_def sublist_def by blast

lemma encodeRow_loop_clean:
  "\<forall>entry \<in> set encoded. \<not> offending (snd entry) \<Longrightarrow>
   \<exists>row. encodeRow_loop encoded context out = Inr row"
  by (induction encoded arbitrary: out) (simp_all add: assert_not_offending)

lemma encodeRow_loop_offending:
  "\<exists>entry \<in> set encoded. offending (snd entry) \<Longrightarrow>
   \<exists>cellId v. (cellId, v) \<in> set encoded \<and> offending v
     \<and> encodeRow_loop encoded context out
         = Inl (StorageTypeError (context @ ''.'' @ cellId) (typeof v))"
proof (induction encoded arbitrary: out)
  case Nil
  then show ?case by simp
next
  case (Cons entry rest)
  show ?case
  proof (cases "offending (snd entry)")
    case True
    then have "encodeRow_loop (entry # rest) context out
                 = Inl (StorageTypeError (context @ ''.'' @ fst entry) (typeof (snd entry)))"
      by (simp add: assert_offending)
    with True show ?thesis
      by (metis list.set_intros(1) prod.collapse)
  next
    case False
    with Cons.prems have "\<exists>entry \<in> set rest. offending (snd entry)" by auto
    from Cons.IH[OF this] False show ?thesis
      by (simp add: assert_not_offending) blast
  qed
qed

lemma encodeTable_loop_offending:
  "\<exists>rowEntry \<in> set encoded. \<exists>entry \<in> set (snd rowEntry). offending (snd entry) \<Longrightarrow>
   \<exists>rowId row cellId v. (rowId, row) \<in> set encoded \<and> (cellId, v) \<in> set row \<and> offending v
     \<and> encodeTable_loop encoded context out
         = Inl (StorageTypeError (context @ ''.'' @ rowId @ ''.'' @ cellId) (typeof v))"
proof (induction encoded arbitrary: out)
  case Nil
  then show ?case by simp
next
  case (Cons rowEntry rest)
  show ?case
  proof (cases "\<exists>entry \<in> set (snd rowEntry). offending (snd entry)")
    case True
    from encodeRow_loop_offending[OF True, of "context @ ''.'' @ fst rowEntry" "[]"]
    obtain cellId v where cv: "(cellId, v) \<in> set (snd rowEntry)" "offending v"
      and err: "encodeRow (snd rowEntry) (context @ ''.'' @ fst rowEntry)
                  = Inl (StorageTypeError ((context @ ''.'' @ fst rowEntry) @ ''.'' @ cellId) (typeof v))"
      unfolding encodeRow_def by blast
    have "encodeTable_loop (rowEntry # rest) context out
            = Inl (StorageTypeError (context @ ''.'' @ fst rowEntry @ ''.'' @ cellId) (typeof v))"
      using err by simp
    moreover have "(fst rowEntry, snd rowEntry) \<in> set (rowEntry # rest)" by simp
    ultimately show ?thesis using cv by blast
  next
    case False
    then obtain row where r: "encodeRow (snd rowEntry) (context @ ''.'' @ fst rowEntry) = Inr row"
      using encodeRow_loop_clean[of "snd rowEntry" "context @ ''.'' @ fst rowEntry" "[]"]
      unfolding encodeRow_def by blast
    from Cons.prems False
    have "\<exists>rowEntry \<in> set rest. \<exists>entry \<in> set (snd rowEntry). offending (snd entry)" by auto
    from Cons.IH[OF this, of "assign (fst rowEntry) row out"] r show ?thesis
      by simp blast
  qed
qed

lemma encodeTable_loop_clean:
  "\<forall>rowEntry \<in> set encoded. \<forall>entry \<in> set (snd rowEntry). \<not> offending (snd entry) \<Longrightarrow>
   \<exists>table. encodeTable_loop encoded context out = Inr table"
proof (induction encoded arbitrary: out)
  case Nil
  then show ?case by simp
next
  case (Cons rowEntry rest)
  then obtain row where "encodeRow (snd rowEntry) (context @ ''.'' @ fst rowEntry) = Inr row"
    using encodeRow_loop_clean[of "snd rowEntry" "context @ ''.'' @ fst rowEntry" "[]"]
    unfolding encodeRow_def by auto
  with Cons show ?case by simp
qed

lemma setTables_loop_offending:
  assumes "\<forall>entry \<in> set tbls. \<forall>schema. getProperty (tables mapped) inheritedRowMember (fst entry) = Some schema
             \<longrightarrow> (\<exists>enc. record_encode schema (snd entry) = Inr enc)"
    and "\<exists>entry \<in> set tbls. \<exists>schema enc. getProperty (tables mapped) inheritedRowMember (fst entry) = Some schema
             \<and> record_encode schema (snd entry) = Inr enc
             \<and> (\<exists>rowEntry \<in> set enc. \<exists>cell \<in> set (snd rowEntry). offending (snd cell))"
  shows "\<exists>tableId table schema enc rowId row cellId v.
           (tableId, table) \<in> set tbls \<and> getProperty (tables mapped) inheritedRowMember tableId = Some schema
         \<and> record_encode schema table = Inr enc
         \<and> (rowId, row) \<in> set enc \<and> (cellId, v) \<in> set row \<and> offending v
         \<and> setTables_loop mapped tbls encoded
             = Inl (StorageTypeError (''tables.'' @ tableId @ ''.'' @ rowId @ ''.'' @ cellId) (typeof v))"
  using assms
proof (induction tbls arbitrary: encoded)
  case Nil
  then show ?case by simp
next
  case (Cons entry rest)
  have rest_ok: "\<forall>entry \<in> set rest. \<forall>schema. getProperty (tables mapped) inheritedRowMember (fst entry) = Some schema
             \<longrightarrow> (\<exists>enc. record_encode schema (snd entry) = Inr enc)"
    using Cons.prems(1) by simp
  show ?case
  proof (cases "getProperty (tables mapped) inheritedRowMember (fst entry)")
    case None
    with Cons.prems(2) have "\<exists>entry \<in> set rest. \<exists>schema enc. getProperty (tables mapped) inheritedRowMember (fst entry) = Some schema
             \<and> record_encode schema (snd entry) = Inr enc
             \<and> (\<exists>rowEntry \<in> set enc. \<exists>cell \<in> set (snd rowEntry). offending (snd cell))"
      by auto
    from Cons.IH[OF rest_ok this, of encoded] None show ?thesis
      by simp blast
  next
    case (Some schema)
    with Cons.prems(1) obtain enc where enc: "record_encode schema (snd entry) = Inr enc"
      by auto
    show ?thesis
    proof (cases "\<exists>rowEntry \<in> set enc. \<exists>cell \<in> set (snd rowEntry). offending (snd cell)")
      case True
      from encodeTable_loop_offending[OF True, of "''tables.'' @ fst entry" "[]"]
      obtain rowId row cellId v where w: "(rowId, row) \<in> set enc" "(cellId, v) \<in> set row"
          "offending v"
        and err: "encodeTable enc (''tables.'' @ fst entry)
                    = Inl (StorageTypeError ((''tables.'' @ fst entry) @ ''.'' @ rowId @ ''.'' @ cellId) (typeof v))"
        unfolding encodeTable_def by blast
      have "setTables_loop mapped (entry # rest) encoded
              = Inl (StorageTypeError (''tables.'' @ fst entry @ ''.'' @ rowId @ ''.'' @ cellId) (typeof v))"
        using Some enc err by simp
      moreover have "(fst entry, snd entry) \<in> set (entry # rest)" by simp
      ultimately show ?thesis using w Some enc by blast
    next
      case False
      then obtain table where t: "encodeTable enc (''tables.'' @ fst entry) = Inr table"
        using encodeTable_loop_clean[of enc "''tables.'' @ fst entry" "[]"]
        unfolding encodeTable_def by blast
      from Cons.prems(2) False Some enc
      have "\<exists>entry \<in> set rest. \<exists>schema enc. getProperty (tables mapped) inheritedRowMember (fst entry) = Some schema
             \<and> record_encode schema (snd entry) = Inr enc
             \<and> (\<exists>rowEntry \<in> set enc. \<exists>cell \<in> set (snd rowEntry). offending (snd cell))"
        by auto
      from Cons.IH[OF rest_ok this, of "assign (fst entry) table encoded"] Some enc t
      show ?thesis by simp blast
    qed
  qed
qed

lemma setValues_loop_offending:
  assumes "\<forall>entry \<in> set vals. \<forall>sc. tryGetValueSchema mapped (fst entry) = Some sc
             \<longrightarrow> (\<exists>e. encode sc (snd entry) = Inr e)"
    and "\<exists>entry \<in> set vals. \<exists>sc e. tryGetValueSchema mapped (fst entry) = Some sc
             \<and> encode sc (snd entry) = Inr e \<and> offending e"
  shows "\<exists>valueId x sc e. (valueId, x) \<in> set vals \<and> tryGetValueSchema mapped valueId = Some sc
         \<and> encode sc x = Inr e \<and> offending e
         \<and> setValues_loop mapped vals encoded
             = Inl (StorageTypeError (''values.'' @ valueId) (typeof e))"
  using assms
proof (induction vals arbitrary: encoded)
  case Nil
  then show ?case by simp
next
  case (Cons entry rest)
  have rest_ok: "\<forall>entry \<in> set rest. \<forall>sc. tryGetValueSchema mapped (fst entry) = Some sc
             \<longrightarrow> (\<exists>e. encode sc (snd entry) = Inr e)"
    using Cons.prems(1) by simp
  show ?case
  proof (cases "tryGetValueSchema mapped (fst entry)")
    case None
    with Cons.prems(2) have "\<exists>entry \<in> set rest. \<exists>sc e. tryGetValueSchema mapped (fst entry) = Some sc
             \<and> encode sc (snd entry) = Inr e \<and> offending e"
      by auto
    from Cons.IH[OF rest_ok this, of encoded] None show ?thesis
      by simp blast
  next
    case (Some sc)
    with Cons.prems(1) obtain e where e: "encode sc (snd entry) = Inr e" by auto
    show ?thesis
    proof (cases "offending e")
      case True
      have "setValues_loop mapped (entry # rest) encoded
              = Inl (StorageTypeError (''values.'' @ fst entry) (typeof e))"
        using Some e True by (simp add: assert_offending)
      moreover have "(fst entry, snd entry) \<in> set (entry # rest)" by simp
      ultimately show ?thesis using True Some e by blast
    next
      case False
      from Cons.prems(2) False Some e
      have "\<exists>entry \<in> set rest. \<exists>sc e. tryGetValueSchema mapped (fst entry) = Some sc
             \<and> encode sc (snd entry) = Inr e \<and> offending e"
        by auto
      from Cons.IH[OF rest_ok this] Some e False show ?thesis
        by (simp add: assert_not_offending) blast
    qed
  qed
qed

lemma setRow_offending:
  assumes "getRowSchema mapped tableId = Inr schema" and "encode schema row = Inr encoded"
    and "\<exists>entry \<in> set encoded. offending (snd entry)"
  shows "\<exists>cellId v. (cellId, v) \<in> set encoded \<and> offending v
         \<and> setRow st mapped tableId rowId row s
             = (Inl (StorageTypeError (''tables.'' @ tableId @ ''.'' @ rowId @ ''.'' @ cellId) (typeof v)), s)"
proof -
  from encodeRow_loop_offending[OF assms(3), of "''tables.'' @ tableId @ ''.'' @ rowId" "[]"]
  obtain cellId v where "(cellId, v) \<in> set encoded" "offending v"
    "encodeRow encoded (''tables.'' @ tableId @ ''.'' @ rowId)
       = Inl (StorageTypeError ((''tables.'' @ tableId @ ''.'' @ rowId) @ ''.'' @ cellId) (typeof v))"
    unfolding encodeRow_def by blast
  with assms(1,2) show ?thesis
    by (auto simp: setRow_def)
qed

lemma setTable_offending:
  assumes "getRowSchema mapped tableId = Inr schema" and "record_encode schema table = Inr enc"
    and "\<exists>rowEntry \<in> set enc. \<exists>entry \<in> set (snd rowEntry). offending (snd entry)"
  shows "\<exists>rowId row cellId v. (rowId, row) \<in> set enc \<and> (cellId, v) \<in> set row \<and> offending v
         \<and> setTable st mapped tableId table s
             = (Inl (StorageTypeError (''tables.'' @ tableId @ ''.'' @ rowId @ ''.'' @ cellId) (typeof v)), s)"
proof -
  from encodeTable_loop_offending[OF assms(3), of "''tables.'' @ tableId" "[]"]
  obtain rowId row cellId v where "(rowId, row) \<in> set enc" "(cellId, v) \<in> set row" "offending v"
    "encodeTable enc (''tables.'' @ tableId)
       = Inl (StorageTypeError ((''tables.'' @ tableId) @ ''.'' @ rowId @ ''.'' @ cellId) (typeof v))"
    unfolding encodeTable_def by blast
  with assms(1,2) show ?thesis
    by (auto simp: setTable_def)
qed

lemma setTables_offending:
  assumes "\<forall>entry \<in> set tbls. \<forall>schema. getProperty (tables mapped) inheritedRowMember (fst entry) = Some schema
             \<longrightarrow> (\<exists>enc. record_encode schema (snd entry) = Inr enc)"
    and "\<exists>entry \<in> set tbls. \<exists>schema enc. getProperty (tables mapped) inheritedRowMember (fst entry) = Some schema
             \<and> record_encode schema (snd entry) = Inr enc
             \<and> (\<exists>rowEntry \<in> set enc. \<exists>cell \<in> set (snd rowEntry). offending (snd cell))"
  shows "\<exists>tableId table schema enc rowId row cellId v.
           (tableId, table) \<in> set tbls \<and> getProperty (tables mapped) inheritedRowMember tableId = Some schema
         \<and> record_encode schema table = Inr enc
         \<and> (rowId, row) \<in> set enc \<and> (cellId, v) \<in> set row \<and> offending v
         \<and> setTables st mapped tbls s
             = (Inl (StorageTypeError (''tables.'' @ tableId @ ''.'' @ rowId @ ''.'' @ cellId) (typeof v)), s)"
proof -
  from setTables_loop_offending[OF assms, of "[]"]
  obtain tableId table schema enc rowId row cellId v where
    "(tableId, table) \<in> set tbls" "getProperty (tables mapped) inheritedRowMember tableId = Some schema"
    "record_encode schema table = Inr enc" "(rowId, row) \<in> set enc" "(cellId, v) \<in> set row"
    "offending v"
    "setTables_loop mapped tbls []
       = Inl (StorageTypeError (''tables.'' @ tableId @ ''.'' @ rowId @ ''.'' @ cellId) (typeof v))"
    by blast
  then show ?thesis
    unfolding setTables_def by (intro exI[of _ tableId] exI[of _ table] exI[of _ schema]
        exI[of _ enc] exI[of _ rowId] exI[of _ row] exI[of _ cellId] exI[of _ v]) simp
qed

lemma setValues_offending:
  assumes "\<forall>entry \<in> set vals. \<forall>sc. tryGetValueSchema mapped (fst entry) = Some sc
             \<longrightarrow> (\<exists>e. encode sc (snd entry) = Inr e)"
    and "\<exists>entry \<in> set vals. \<exists>sc e. tryGetValueSchema mapped (fst entry) = Some sc
             \<and> encode sc (snd entry) = Inr e \<and> offending e"
  shows "\<exists>valueId x sc e. (valueId, x) \<in> set vals \<and> tryGetValueSchema mapped valueId = Some sc
         \<and> encode sc x = Inr e \<and> offending e
         \<and> setValues st mapped vals s
             = (Inl (StorageTypeError (''values.'' @ valueId) (typeof e)), s)"
proof -
  from setValues_loop_offending[OF assms, of "[]"]
  obtain valueId x sc e where
    "(valueId, x) \<in> set vals" "tryGetValueSchema mapped valueId = Some sc"
    "encode sc x = Inr e" "offending e"
    "setValues_loop mapped vals [] = Inl (StorageTypeError (''values.'' @ valueId) (typeof e))"
    by blast
  then show ?thesis
    unfolding setValues_def by (intro exI[of _ valueId] exI[of _ x] exI[of _ sc] exI[of _ e]) simp
qed

lemma mapCell_offending:
  assumes "(if current = Undefined then Inr Undefined else decode sc current) = Inr decoded"
    and "f decoded = Inr next" and "next \<noteq> Undefined" and "encode sc next = Inr e"
    and "offending e"
  shows "mapCell sc context f current = Inl (StorageTypeError context (typeof e))"
  using assms by (simp add: mapCell_def assert_offending)

lemma setCell_offending:
  assumes "store_hasRow st s tableId rowId" and "getCellSchema mapped tableId cellId = Inr sc"
  shows "encode sc x = Inr e \<and> offending e \<longrightarrow>
           setCell st mapped tableId rowId cellId (Literal x) s
             = (Inl (StorageTypeError (''tables.'' @ tableId @ ''.'' @ rowId @ ''.'' @ cellId) (typeof e)), s)"
    and "setCell st mapped tableId rowId cellId (Mapper f) s
           = store_setCellWith st tableId rowId cellId
               (mapCell sc (''tables.'' @ tableId @ ''.'' @ rowId @ ''.'' @ cellId) f) s"
  using assms
  by (auto simp: setCell_def assert_offending)

lemma setValue_offending:
  assumes "tryGetValueSchema mapped valueId = Some sc"
  shows "encode sc x = Inr e \<and> offending e \<longrightarrow>
           setValue st mapped valueId (Literal x) s
             = (Inl (StorageTypeError (''values.'' @ valueId) (typeof e)), s)"
    and "setValue st mapped valueId (Mapper f) s
           = store_setValueWith st valueId (mapCell sc (''values.'' @ valueId) f) s"
  using assms
  by (auto simp: setValue_def assert_offending)

text \<open>
  In every write operation that takes values, when the encoding steps return and one of
  them returns a value that is neither a storage cell nor \<^verbatim>\<open>undefined\<close>, the operation
  raises the storage-type error for such a field, with the field's dotted path
  (\<^verbatim>\<open>tables.<table>.<row>.<cell>\<close> or \<^verbatim>\<open>values.<value>\<close>) and the \<^verbatim>\<open>typeof\<close> of the
  value, before it calls the store: the store is in the state it was in. The parts are
  \<^verbatim>\<open>setRow\<close>, \<^verbatim>\<open>setTable\<close>, \<^verbatim>\<open>setTables\<close>, \<^verbatim>\<open>setCell\<close> and \<^verbatim>\<open>setValue\<close> with a value,
  \<^verbatim>\<open>setValues\<close>; the last part says that the error's message contains the path. Where
  several fields are refused, the error names the first that the operation meets. This
  holds for every store.
\<close>

lemma storage_type_error_before_store:
  "(getRowSchema mapped tableId = Inr schema \<and> encode schema row = Inr encoded
      \<and> (\<exists>entry \<in> set encoded. offending (snd entry))
    \<longrightarrow> (\<exists>c v. (c, v) \<in> set encoded \<and> offending v
          \<and> setRow st mapped tableId rowId row s
              = (Inl (StorageTypeError (''tables.'' @ tableId @ ''.'' @ rowId @ ''.'' @ c) (typeof v)), s)))
   \<and> (getRowSchema mapped tableId = Inr schema \<and> record_encode schema table = Inr enc
      \<and> (\<exists>rowEntry \<in> set enc. \<exists>entry \<in> set (snd rowEntry). offending (snd entry))
    \<longrightarrow> (\<exists>r encodedRow c v. (r, encodedRow) \<in> set enc \<and> (c, v) \<in> set encodedRow \<and> offending v
          \<and> setTable st mapped tableId table s
              = (Inl (StorageTypeError (''tables.'' @ tableId @ ''.'' @ r @ ''.'' @ c) (typeof v)), s)))
   \<and> ((\<forall>entry \<in> set tbls. \<forall>sch. getProperty (tables mapped) inheritedRowMember (fst entry) = Some sch
             \<longrightarrow> (\<exists>en. record_encode sch (snd entry) = Inr en))
      \<and> (\<exists>entry \<in> set tbls. \<exists>sch en. getProperty (tables mapped) inheritedRowMember (fst entry) = Some sch
             \<and> record_encode sch (snd entry) = Inr en
             \<and> (\<exists>rowEntry \<in> set en. \<exists>cell \<in> set (snd rowEntry). offending (snd cell)))
    \<longrightarrow> (\<exists>t tbl sch en r encodedRow c v.
            (t, tbl) \<in> set tbls \<and> getProperty (tables mapped) inheritedRowMember t = Some sch
          \<and> record_encode sch tbl = Inr en
          \<and> (r, encodedRow) \<in> set en \<and> (c, v) \<in> set encodedRow \<and> offending v
          \<and> setTables st mapped tbls s
              = (Inl (StorageTypeError (''tables.'' @ t @ ''.'' @ r @ ''.'' @ c) (typeof v)), s)))
   \<and> (store_hasRow st s tableId rowId \<and> getCellSchema mapped tableId cellId = Inr sc
      \<and> encode sc x = Inr e \<and> offending e
    \<longrightarrow> setCell st mapped tableId rowId cellId (Literal x) s
          = (Inl (StorageTypeError (''tables.'' @ tableId @ ''.'' @ rowId @ ''.'' @ cellId) (typeof e)), s))
   \<and> (tryGetValueSchema mapped valueId = Some vsc \<and> encode vsc vx = Inr ve \<and> offending ve
    \<longrightarrow> setValue st mapped valueId (Literal vx) s
          = (Inl (StorageTypeError (''values.'' @ valueId) (typeof ve)), s))
   \<and> ((\<forall>entry \<in> set vals. \<forall>c. tryGetValueSchema mapped (fst entry) = Some c
             \<longrightarrow> (\<exists>en. encode c (snd entry) = Inr en))
      \<and> (\<exists>entry \<in> set vals. \<exists>c en. tryGetValueSchema mapped (fst entry) = Some c
             \<and> encode c (snd entry) = Inr en \<and> offending en)
    \<longrightarrow> (\<exists>vid val c en. (vid, val) \<in> set vals \<and> tryGetValueSchema mapped vid = Some c
          \<and> encode c val = Inr en \<and> offending en
          \<and> setValues st mapped vals s
              = (Inl (StorageTypeError (''values.'' @ vid) (typeof en)), s)))
   \<and> (\<exists>msg. StorageTypeError path got = Error msg \<and> sublist path msg)"
proof (intro conjI impI)
  assume "getRowSchema mapped tableId = Inr schema \<and> encode schema row = Inr encoded
      \<and> (\<exists>entry \<in> set encoded. offending (snd entry))"
  then show "\<exists>c v. (c, v) \<in> set encoded \<and> offending v
          \<and> setRow st mapped tableId rowId row s
              = (Inl (StorageTypeError (''tables.'' @ tableId @ ''.'' @ rowId @ ''.'' @ c) (typeof v)), s)"
    using setRow_offending[of mapped tableId schema row encoded st rowId s] by blast
next
  assume "getRowSchema mapped tableId = Inr schema \<and> record_encode schema table = Inr enc
      \<and> (\<exists>rowEntry \<in> set enc. \<exists>entry \<in> set (snd rowEntry). offending (snd entry))"
  then show "\<exists>r encodedRow c v. (r, encodedRow) \<in> set enc \<and> (c, v) \<in> set encodedRow \<and> offending v
          \<and> setTable st mapped tableId table s
              = (Inl (StorageTypeError (''tables.'' @ tableId @ ''.'' @ r @ ''.'' @ c) (typeof v)), s)"
    using setTable_offending[of mapped tableId schema table enc st s] by blast
next
  assume "(\<forall>entry \<in> set tbls. \<forall>sch. getProperty (tables mapped) inheritedRowMember (fst entry) = Some sch
             \<longrightarrow> (\<exists>en. record_encode sch (snd entry) = Inr en))
      \<and> (\<exists>entry \<in> set tbls. \<exists>sch en. getProperty (tables mapped) inheritedRowMember (fst entry) = Some sch
             \<and> record_encode sch (snd entry) = Inr en
             \<and> (\<exists>rowEntry \<in> set en. \<exists>cell \<in> set (snd rowEntry). offending (snd cell)))"
  then show "\<exists>t tbl sch en r encodedRow c v.
            (t, tbl) \<in> set tbls \<and> getProperty (tables mapped) inheritedRowMember t = Some sch
          \<and> record_encode sch tbl = Inr en
          \<and> (r, encodedRow) \<in> set en \<and> (c, v) \<in> set encodedRow \<and> offending v
          \<and> setTables st mapped tbls s
              = (Inl (StorageTypeError (''tables.'' @ t @ ''.'' @ r @ ''.'' @ c) (typeof v)), s)"
    using setTables_offending[of tbls mapped st s] by blast
next
  assume "store_hasRow st s tableId rowId \<and> getCellSchema mapped tableId cellId = Inr sc
      \<and> encode sc x = Inr e \<and> offending e"
  then show "setCell st mapped tableId rowId cellId (Literal x) s
          = (Inl (StorageTypeError (''tables.'' @ tableId @ ''.'' @ rowId @ ''.'' @ cellId) (typeof e)), s)"
    using setCell_offending(1)[of st s tableId rowId mapped cellId sc x e] by blast
next
  assume "tryGetValueSchema mapped valueId = Some vsc \<and> encode vsc vx = Inr ve \<and> offending ve"
  then show "setValue st mapped valueId (Literal vx) s
          = (Inl (StorageTypeError (''values.'' @ valueId) (typeof ve)), s)"
    using setValue_offending(1)[of mapped valueId vsc vx ve st s] by blast
next
  assume "(\<forall>entry \<in> set vals. \<forall>c. tryGetValueSchema mapped (fst entry) = Some c
             \<longrightarrow> (\<exists>en. encode c (snd entry) = Inr en))
      \<and> (\<exists>entry \<in> set vals. \<exists>c en. tryGetValueSchema mapped (fst entry) = Some c
             \<and> encode c (snd entry) = Inr en \<and> offending en)"
  then show "\<exists>vid val c en. (vid, val) \<in> set vals \<and> tryGetValueSchema mapped vid = Some c
          \<and> encode c val = Inr en \<and> offending en
          \<and> setValues st mapped vals s
              = (Inl (StorageTypeError (''values.'' @ vid) (typeof en)), s)"
    using setValues_offending[of vals mapped st s] by blast
next
  show "\<exists>msg. StorageTypeError path got = Error msg \<and> sublist path msg"
    by (rule StorageTypeError_names_path)
qed

text \<open>
  With a function, \<^verbatim>\<open>setCell\<close> and \<^verbatim>\<open>setValue\<close> hand the store a closure and return what
  the store's call returns; the closure raises the storage-type error with the field's
  path when the encoding of what the function returned is refused. This holds for every
  store; the state after the call is what the store leaves.
\<close>

lemma storage_type_error_inside_store:
  "(store_hasRow st s tableId rowId \<and> getCellSchema mapped tableId cellId = Inr sc
    \<longrightarrow> setCell st mapped tableId rowId cellId (Mapper f) s
          = store_setCellWith st tableId rowId cellId
              (mapCell sc (''tables.'' @ tableId @ ''.'' @ rowId @ ''.'' @ cellId) f) s)
   \<and> (tryGetValueSchema mapped valueId = Some vsc
    \<longrightarrow> setValue st mapped valueId (Mapper f) s
          = store_setValueWith st valueId (mapCell vsc (''values.'' @ valueId) f) s)
   \<and> ((if current = Undefined then Inr Undefined else decode sc current) = Inr decoded
      \<and> f decoded = Inr nextDecoded \<and> nextDecoded \<noteq> Undefined
      \<and> encode sc nextDecoded = Inr e \<and> offending e
    \<longrightarrow> mapCell sc path f current = Inl (StorageTypeError path (typeof e)))"
  using setCell_offending(2)[of st s tableId rowId mapped cellId sc f]
    setValue_offending(2)[of mapped valueId vsc st f]
    mapCell_offending[of current sc decoded f nextDecoded e path]
  by blast

lemma inTransactions_simps:
  "store_hasRow (inTransactions st) p = store_hasRow st (fst p)"
  "store_getCell (inTransactions st) p = store_getCell st (fst p)"
  "store_getValue (inTransactions st) p = store_getValue st (fst p)"
  "store_setCellWith (inTransactions st) tableId rowId cellId mapper p
     = (case store_setCellWith st tableId rowId cellId mapper (fst p) of
          (Inl e, s) \<Rightarrow> (Inl e, (s, Suc (snd p)))
        | (Inr u, s) \<Rightarrow> (Inr u, (s, snd p)))"
  "store_setValueWith (inTransactions st) valueId mapper p
     = (case store_setValueWith st valueId mapper (fst p) of
          (Inl e, s) \<Rightarrow> (Inl e, (s, Suc (snd p)))
        | (Inr u, s) \<Rightarrow> (Inr u, (s, snd p)))"
  by (simp_all add: inTransactions_def)

text \<open>
  C1, evaluated on the reference store with its transactions. The cell \<^verbatim>\<open>d\<close> of table
  \<^verbatim>\<open>u\<close> and the value \<^verbatim>\<open>vDate\<close> have the schema \<^verbatim>\<open>z.date()\<close>, which encodes a date to
  the \<^verbatim>\<open>Date\<close> object itself. Written as a value, the date raises the storage-type error
  with the path and the store is in the state it was in. Written by a function that
  returns the date, it raises the same error, the stored tables and values are as they
  were, but the store is left inside the transaction that its \<^verbatim>\<open>setCell\<close> (\<^verbatim>\<open>setValue\<close>)
  opened: no transaction was open before the call and one is open after it.
\<close>

theorem storage_type_error_function_form_evaluated:
  "setCell (inTransactions createStore) testSchema ''u'' ''1'' ''d'' (Literal (Date (Some 0)))
       (seededStore, 0)
     = (Inl (StorageTypeError ''tables.u.1.d'' ''object''), (seededStore, 0))
   \<and> setCell (inTransactions createStore) testSchema ''u'' ''1'' ''d''
       (Mapper (\<lambda>v. Inr (Date (Some 0)))) (seededStore, 0)
     = (Inl (StorageTypeError ''tables.u.1.d'' ''object''), (seededStore, 1))
   \<and> setValue (inTransactions createStore) testSchema ''vDate'' (Literal (Date (Some 0)))
       (seededStore, 0)
     = (Inl (StorageTypeError ''values.vDate'' ''object''), (seededStore, 0))
   \<and> setValue (inTransactions createStore) testSchema ''vDate''
       (Mapper (\<lambda>v. Inr (Date (Some 0)))) (seededStore, 0)
     = (Inl (StorageTypeError ''values.vDate'' ''object''), (seededStore, 1))
   \<and> (\<exists>msg. StorageTypeError ''tables.u.1.d'' ''object'' = Error msg
          \<and> sublist ''tables.u.1.d'' msg)"
proof -
  have cell: "getCellSchema testSchema ''u'' ''d'' = Inr (z_optional z_date)"
    by (simp add: getCellSchema_def testSchema_table_schemas z_object_def getProperty_simps)
  have row: "store_hasRow (inTransactions createStore) (seededStore, 0) ''u'' ''1''"
    by (simp add: inTransactions_simps createStore_simps tb_hasRow_def tb_getTable_def
        seededStore_def)
  have off: "offending (Date (Some 0))"
    by (simp add: offending_def isStorageCell_def)
  have enc: "encode (z_optional z_date) (Date (Some 0)) = Inr (Date (Some 0))"
    "encode z_date (Date (Some 0)) = Inr (Date (Some 0))"
    by (simp_all add: z_optional_def z_date_def z_check_def)
  have closure: "mapCell (z_optional z_date) ''tables.u.1.d'' (\<lambda>v. Inr (Date (Some 0))) Undefined
                   = Inl (StorageTypeError ''tables.u.1.d'' ''object'')"
    "mapCell z_date ''values.vDate'' (\<lambda>v. Inr (Date (Some 0))) Undefined
       = Inl (StorageTypeError ''values.vDate'' ''object'')"
    using mapCell_offending[of Undefined "z_optional z_date" Undefined "\<lambda>v. Inr (Date (Some 0))"
        "Date (Some 0)" "Date (Some 0)" "''tables.u.1.d''"]
      mapCell_offending[of Undefined z_date Undefined "\<lambda>v. Inr (Date (Some 0))"
        "Date (Some 0)" "Date (Some 0)" "''values.vDate''"]
      off enc
    by simp_all
  have stored: "store_getCell createStore seededStore ''u'' ''1'' ''d'' = Undefined"
    "store_getValue createStore seededStore ''vDate'' = Undefined"
    by (simp_all add: createStore_simps tb_getCell_def tb_getRow_def tb_getTable_def
        tb_getValue_def seededStore_def)
  have "setCell (inTransactions createStore) testSchema ''u'' ''1'' ''d'' (Literal (Date (Some 0)))
       (seededStore, 0)
     = (Inl (StorageTypeError ''tables.u.1.d'' ''object''), (seededStore, 0))"
    using setCell_offending(1)[OF row cell, of "Date (Some 0)" "Date (Some 0)"] off enc
    by simp
  moreover have "setCell (inTransactions createStore) testSchema ''u'' ''1'' ''d''
       (Mapper (\<lambda>v. Inr (Date (Some 0)))) (seededStore, 0)
     = (Inl (StorageTypeError ''tables.u.1.d'' ''object''), (seededStore, 1))"
    using setCell_offending(2)[OF row cell, of "\<lambda>v. Inr (Date (Some 0))"] closure stored
    by (simp add: inTransactions_simps createStore_simps tb_setCellWith_def)
  moreover have "setValue (inTransactions createStore) testSchema ''vDate''
       (Literal (Date (Some 0))) (seededStore, 0)
     = (Inl (StorageTypeError ''values.vDate'' ''object''), (seededStore, 0))"
    using setValue_offending(1)[of testSchema "''vDate''" z_date "Date (Some 0)" "Date (Some 0)"]
      off enc
    by (simp add: testSchema_value_schemas)
  moreover have "setValue (inTransactions createStore) testSchema ''vDate''
       (Mapper (\<lambda>v. Inr (Date (Some 0)))) (seededStore, 0)
     = (Inl (StorageTypeError ''values.vDate'' ''object''), (seededStore, 1))"
    using setValue_offending(2)[of testSchema "''vDate''" z_date "inTransactions createStore"
        "\<lambda>v. Inr (Date (Some 0))" "(seededStore, 0)"] closure stored
    by (simp add: testSchema_value_schemas inTransactions_simps createStore_simps
        tb_setValueWith_def)
  ultimately show ?thesis
    using StorageTypeError_names_path[of "''tables.u.1.d''" "''object''"] by blast
qed

section \<open>Bulk operations and ids outside the declaration\<close>


























section \<open>The field codecs\<close>

lemma trunc_real_of_int [simp]: "trunc_real (of_int k) = k"
  by (simp add: trunc_real_def)

lemma trunc_real_of_int_div:
  "trunc_real (of_int t / 1000) = (if 0 \<le> t then t div 1000 else - ((- t) div 1000))"
proof (cases "0 \<le> t")
  case True
  have "\<lfloor>(of_int t :: real) / of_int 1000\<rfloor> = t div 1000"
    by (rule floor_divide_of_int_eq)
  with True show ?thesis by (simp add: trunc_real_def)
next
  case False
  have "\<lfloor>(of_int (- t) :: real) / of_int 1000\<rfloor> = (- t) div 1000"
    by (rule floor_divide_of_int_eq)
  then have "\<lceil>(of_int t :: real) / 1000\<rceil> = - ((- t) div 1000)"
    by (simp add: ceiling_def)
  moreover from False have "\<not> 0 \<le> (of_int t :: real) / 1000" by simp
  ultimately show ?thesis using False by (simp add: trunc_real_def)
qed

lemma split_seconds: "1000 * ((t::int) div 1000) + t mod 1000 = t"
  by (rule mult_div_mod_eq)

lemma whole_seconds_bound: "\<bar>1000 * trunc_real (of_int t / 1000)\<bar> \<le> \<bar>t\<bar>"
proof (cases "0 \<le> t")
  case True
  then have "0 \<le> t div 1000" by (simp add: pos_imp_zdiv_nonneg_iff)
  moreover have "0 \<le> t mod 1000" by simp
  ultimately show ?thesis
    using split_seconds[of t] True unfolding trunc_real_of_int_div by simp
next
  case False
  then have "0 \<le> (- t) div 1000" by (simp add: pos_imp_zdiv_nonneg_iff)
  moreover have "0 \<le> (- t) mod 1000" by simp
  ultimately show ?thesis
    using split_seconds[of "- t"] False unfolding trunc_real_of_int_div by simp
qed

lemma whole_seconds_same: "(1000 * trunc_real (of_int t / 1000) = t) = (t mod 1000 = 0)"
proof (cases "0 \<le> t")
  case True
  have "(1000 * (t div 1000) = t) = (t mod 1000 = 0)"
    using split_seconds[of t] by linarith
  with True show ?thesis
    unfolding trunc_real_of_int_div by simp
next
  case False
  have "(- (1000 * ((- t) div 1000)) = t) = ((- t) mod 1000 = 0)"
    using split_seconds[of "- t"] by linarith
  also have "\<dots> = (t mod 1000 = 0)"
    by (simp add: mod_eq_0_iff_dvd)
  finally show ?thesis
    using False unfolding trunc_real_of_int_div by simp
qed

lemma TimeClip_of_int: "isTimeValue t \<Longrightarrow> TimeClip (Finite (of_int t)) = Some t"
proof -
  assume "isTimeValue t"
  then have "\<bar>(of_int t :: real)\<bar> \<le> 8640000000000000"
    unfolding isTimeValue_def by (metis of_int_abs of_int_le_iff of_int_numeral)
  then show ?thesis by (simp add: TimeClip_def)
qed

lemma dateAsNumberMs_roundtrip:
  assumes "isTimeValue t"
  shows "encode dateAsNumberMs (Date (Some t)) = Inr (Num (Finite (of_int t)))"
    and "decode dateAsNumberMs (Num (Finite (of_int t))) = Inr (Date (Some t))"
  using TimeClip_of_int[OF assms]
  by (simp_all add: dateAsNumberMs_def z_codec_def z_number_def z_date_def z_check_def getTime_def)

lemma dateAsNumberSeconds_encode:
  "encode dateAsNumberSeconds (Date (Some t))
     = Inr (Num (Finite (of_int (trunc_real (of_int t / 1000)))))"
  by (simp add: dateAsNumberSeconds_def z_codec_def z_number_def z_date_def z_check_def
      getTime_def divide_by_def Math_trunc_def)

lemma dateAsNumberSeconds_decode:
  assumes "isTimeValue t"
  shows "decode dateAsNumberSeconds (Num (Finite (of_int (trunc_real (of_int t / 1000)))))
           = Inr (Date (Some (1000 * trunc_real (of_int t / 1000))))"
proof -
  have "isTimeValue (1000 * trunc_real (of_int t / 1000))"
    using assms whole_seconds_bound[of t] unfolding isTimeValue_def by linarith
  from TimeClip_of_int[OF this]
  have "TimeClip (Finite (of_int (trunc_real (of_int t / 1000)) * 1000))
          = Some (1000 * trunc_real (of_int t / 1000))"
    by (simp add: mult.commute)
  then show ?thesis
    by (simp add: dateAsNumberSeconds_def z_codec_def z_number_def z_date_def z_check_def
        times_by_def)
qed

lemma dateAsIso_roundtrip:
  assumes "Date_parse rt (toISOString rt t) = Some t"
  shows "encode (dateAsIso rt) (Date (Some t)) = Inr (Str (toISOString rt t))"
    and "decode (dateAsIso rt) (Str (toISOString rt t)) = Inr (Date (Some t))"
  using assms
  by (simp_all add: dateAsIso_def z_codec_def z_string_def z_date_def z_check_def)

lemma json_roundtrip:
  assumes "encode schema x = Inr y" and "JSON_stringify rt y = Inr (Str serialised)"
    and "JSON_parse rt (Str serialised) = Inr y'" and "decode schema y' = Inr x"
  shows "encode (json rt schema) x = Inr (Str serialised)"
    and "decode (json rt schema) (Str serialised) = Inr x"
  using assms by (simp_all add: json_def z_codec_def z_string_def z_check_def)

lemma z_check_encode: "encode (z_check admits expected) a = Inr v \<Longrightarrow> v = a \<and> admits a"
  by (auto simp: z_check_def split: if_splits)

lemma z_codec_encode_in:
  "encode (z_codec inSchema outSchema dec enc) x = Inr v \<Longrightarrow> \<exists>a. encode inSchema a = Inr v"
  by (auto simp: z_codec_def split: sum.splits)

lemma string_codec_encodes_cell:
  "encode (z_codec z_string outSchema dec enc) x = Inr v \<Longrightarrow> \<exists>serialised. v = Str serialised"
proof -
  assume "encode (z_codec z_string outSchema dec enc) x = Inr v"
  then obtain a where "encode z_string a = Inr v" by (auto dest: z_codec_encode_in)
  then show ?thesis
    unfolding z_string_def by (auto dest!: z_check_encode split: jsval.splits)
qed

lemma number_codec_encodes_cell:
  "encode (z_codec z_number outSchema dec enc) x = Inr v \<Longrightarrow> \<exists>r. v = Num (Finite r)"
proof -
  assume "encode (z_codec z_number outSchema dec enc) x = Inr v"
  then obtain a where "encode z_number a = Inr v" by (auto dest: z_codec_encode_in)
  then show ?thesis
    unfolding z_number_def by (auto dest!: z_check_encode split: jsval.splits number.splits)
qed

text \<open>
  C6, as the code has it. \<^verbatim>\<open>dateAsNumberMs\<close> returns every valid date from its
  encoding. \<^verbatim>\<open>dateAsNumberSeconds\<close> encodes a valid date to its whole seconds, rounded
  towards zero, and decodes that to the date of those whole seconds, which is the
  encoded date exactly when it has no milliseconds beyond the second. \<^verbatim>\<open>dateAsIso\<close>
  returns a valid date from its encoding where the runtime's date parser reads the
  runtime's ISO text of the date back to it, and \<^verbatim>\<open>json(schema)\<close> returns a value from
  its encoding where \<^verbatim>\<open>JSON.parse\<close> reads the text of \<^verbatim>\<open>JSON.stringify\<close> back to what the
  schema decodes to the value. Whenever \<^verbatim>\<open>encode\<close> of one of the four returns, it
  returns a string (\<^verbatim>\<open>json\<close>, \<^verbatim>\<open>dateAsIso\<close>) or a number (the two others), which the
  scalar guard accepts.
\<close>

theorem codecs_roundtrip:
  "(isTimeValue t \<longrightarrow>
       encode dateAsNumberMs (Date (Some t)) = Inr (Num (Finite (of_int t)))
     \<and> decode dateAsNumberMs (Num (Finite (of_int t))) = Inr (Date (Some t)))
   \<and> (isTimeValue t \<longrightarrow>
       encode dateAsNumberSeconds (Date (Some t))
         = Inr (Num (Finite (of_int (trunc_real (of_int t / 1000)))))
     \<and> decode dateAsNumberSeconds (Num (Finite (of_int (trunc_real (of_int t / 1000)))))
         = Inr (Date (Some (1000 * trunc_real (of_int t / 1000))))
     \<and> ((1000 * trunc_real (of_int t / 1000) = t) = (t mod 1000 = 0)))
   \<and> (Date_parse rt (toISOString rt t) = Some t \<longrightarrow>
       encode (dateAsIso rt) (Date (Some t)) = Inr (Str (toISOString rt t))
     \<and> decode (dateAsIso rt) (Str (toISOString rt t)) = Inr (Date (Some t)))
   \<and> (encode schema x = Inr y \<and> JSON_stringify rt y = Inr (Str serialised)
        \<and> JSON_parse rt (Str serialised) = Inr y' \<and> decode schema y' = Inr x \<longrightarrow>
       encode (json rt schema) x = Inr (Str serialised)
     \<and> decode (json rt schema) (Str serialised) = Inr x)
   \<and> (encode (json rt schema) a = Inr v \<or> encode (dateAsIso rt) a = Inr v
        \<or> encode dateAsNumberMs a = Inr v \<or> encode dateAsNumberSeconds a = Inr v
      \<longrightarrow> isStorageCell v \<and> ((\<exists>str. v = Str str) \<or> (\<exists>n. v = Num n)))"
proof (intro conjI impI)
  assume "isTimeValue t"
  then show "encode dateAsNumberMs (Date (Some t)) = Inr (Num (Finite (of_int t)))"
    and "decode dateAsNumberMs (Num (Finite (of_int t))) = Inr (Date (Some t))"
    by (rule dateAsNumberMs_roundtrip)+
next
  show "encode dateAsNumberSeconds (Date (Some t))
         = Inr (Num (Finite (of_int (trunc_real (of_int t / 1000)))))"
    by (rule dateAsNumberSeconds_encode)
next
  assume "isTimeValue t"
  then show "decode dateAsNumberSeconds (Num (Finite (of_int (trunc_real (of_int t / 1000)))))
         = Inr (Date (Some (1000 * trunc_real (of_int t / 1000))))"
    by (rule dateAsNumberSeconds_decode)
next
  show "(1000 * trunc_real (of_int t / 1000) = t) = (t mod 1000 = 0)"
    by (rule whole_seconds_same)
next
  assume "Date_parse rt (toISOString rt t) = Some t"
  then show "encode (dateAsIso rt) (Date (Some t)) = Inr (Str (toISOString rt t))"
    and "decode (dateAsIso rt) (Str (toISOString rt t)) = Inr (Date (Some t))"
    by (rule dateAsIso_roundtrip)+
next
  assume a: "encode schema x = Inr y \<and> JSON_stringify rt y = Inr (Str serialised)
        \<and> JSON_parse rt (Str serialised) = Inr y' \<and> decode schema y' = Inr x"
  then show "encode (json rt schema) x = Inr (Str serialised)"
    using json_roundtrip(1)[of schema x y rt serialised y'] by blast
  from a show "decode (json rt schema) (Str serialised) = Inr x"
    using json_roundtrip(2)[of schema x y rt serialised y'] by blast
next
  assume "encode (json rt schema) a = Inr v \<or> encode (dateAsIso rt) a = Inr v
        \<or> encode dateAsNumberMs a = Inr v \<or> encode dateAsNumberSeconds a = Inr v"
  then have "(\<exists>str. v = Str str) \<or> (\<exists>n. v = Num n)"
    unfolding json_def dateAsIso_def dateAsNumberMs_def dateAsNumberSeconds_def
    by (auto dest: string_codec_encodes_cell number_codec_encodes_cell)
  then show "isStorageCell v" and "(\<exists>str. v = Str str) \<or> (\<exists>n. v = Num n)"
    by (auto simp: isStorageCell_def)
qed

theorem codecs_roundtrip_witness:
  "isTimeValue 1706933106000
   \<and> encode dateAsNumberMs (Date (Some 1706933106000)) = Inr (Num (Finite 1706933106000))
   \<and> decode dateAsNumberMs (Num (Finite 1706933106000)) = Inr (Date (Some 1706933106000))
   \<and> encode dateAsNumberSeconds (Date (Some 1706933106000)) = Inr (Num (Finite 1706933106))
   \<and> decode dateAsNumberSeconds (Num (Finite 1706933106)) = Inr (Date (Some 1706933106000))
   \<and> Date_parse testRuntime (toISOString testRuntime 0) = Some 0
   \<and> encode (dateAsIso testRuntime) (Date (Some 0)) = Inr (Str ''1970-01-01T00:00:00.000Z'')
   \<and> decode (dateAsIso testRuntime) (Str ''1970-01-01T00:00:00.000Z'') = Inr (Date (Some 0))
   \<and> encode z_any (Arr [Str ''a'', Str ''b'']) = Inr (Arr [Str ''a'', Str ''b''])
   \<and> JSON_stringify testRuntime (Arr [Str ''a'', Str ''b'']) = Inr (Str ''[a,b]'')
   \<and> JSON_parse testRuntime (Str ''[a,b]'') = Inr (Arr [Str ''a'', Str ''b''])
   \<and> encode (json testRuntime z_any) (Arr [Str ''a'', Str ''b'']) = Inr (Str ''[a,b]'')
   \<and> decode (json testRuntime z_any) (Str ''[a,b]'') = Inr (Arr [Str ''a'', Str ''b''])
   \<and> isStorageCell (Str ''[a,b]'')"
  using codecs_roundtrip[where t = 1706933106000 and rt = testRuntime and schema = z_any
      and x = "Arr [Str ''a'', Str ''b'']" and y = "Arr [Str ''a'', Str ''b'']"
      and serialised = "''[a,b]''" and y' = "Arr [Str ''a'', Str ''b'']"
      and a = "Arr [Str ''a'', Str ''b'']" and v = "Str ''[a,b]''"]
    codecs_roundtrip[where t = 0 and rt = testRuntime and schema = z_any
      and x = "Arr [Str ''a'', Str ''b'']" and y = "Arr [Str ''a'', Str ''b'']"
      and serialised = "''[a,b]''" and y' = "Arr [Str ''a'', Str ''b'']"
      and a = "Arr [Str ''a'', Str ''b'']" and v = "Str ''[a,b]''"]
  by (simp add: isTimeValue_def trunc_real_def testRuntime_def z_any_def z_check_def
      isStorageCell_def)

theorem dateAsNumberSeconds_counterexample:
  "isTimeValue 1706933106789
   \<and> encode dateAsNumberSeconds (Date (Some 1706933106789)) = Inr (Num (Finite 1706933106))
   \<and> decode dateAsNumberSeconds (Num (Finite 1706933106)) = Inr (Date (Some 1706933106000))
   \<and> Date (Some 1706933106000) \<noteq> Date (Some 1706933106789)"
proof -
  have t: "isTimeValue 1706933106789" by (simp add: isTimeValue_def)
  have q: "trunc_real (of_int 1706933106789 / 1000) = 1706933106"
    unfolding trunc_real_of_int_div by simp
  from dateAsNumberSeconds_encode[of 1706933106789] dateAsNumberSeconds_decode[OF t] q t
  show ?thesis by simp
qed

section \<open>Listeners\<close>

text \<open>
  The listener that \<^verbatim>\<open>addCellListener\<close> gives the store is the same function
  whatever ids it is registered for (a wildcard is \<open>None\<close>), so what it delivers
  depends on the ids of the change only. For a change of a cell for which
  \<^verbatim>\<open>tryGetCellSchema\<close> finds nothing it calls the application's listener with the new
  and the old cell as the store delivered them. For a cell for which it finds a schema
  it calls it with each of the two decoded by that schema, an \<^verbatim>\<open>undefined\<close> one passed
  on as \<^verbatim>\<open>undefined\<close> without decoding. \<^verbatim>\<open>addValueListener\<close> does the same with the
  value's schema.
\<close>

lemma listener_wrapper_decoding:
  "addCellListener store_addCellListener mapped registeredTable registeredRow registeredCell
       listener mutator
     = store_addCellListener registeredTable registeredRow registeredCell
         (cellListener mapped listener) mutator
   \<and> (tryGetCellSchema mapped tableId cellId = None
      \<longrightarrow> cellListener mapped listener tableId rowId cellId newCell oldCell getCellChange
          = Inr (listener tableId rowId cellId newCell oldCell
                   (map_option (getTypedCellChange mapped) getCellChange)))
   \<and> (tryGetCellSchema mapped tableId cellId = Some sc
        \<and> (if newCell = Undefined then Inr Undefined else decode sc newCell) = Inr decodedNew
        \<and> (if oldCell = Undefined then Inr Undefined else decode sc oldCell) = Inr decodedOld
      \<longrightarrow> cellListener mapped listener tableId rowId cellId newCell oldCell getCellChange
          = Inr (listener tableId rowId cellId decodedNew decodedOld
                   (map_option (getTypedCellChange mapped) getCellChange)))
   \<and> addValueListener store_addValueListener mapped registeredValue vlistener mutator
     = store_addValueListener registeredValue (valueListener mapped vlistener) mutator
   \<and> (tryGetValueSchema mapped valueId = None
      \<longrightarrow> valueListener mapped vlistener valueId newValue oldValue getValueChange
          = Inr (vlistener valueId newValue oldValue
                   (map_option (getTypedValueChange mapped) getValueChange)))
   \<and> (tryGetValueSchema mapped valueId = Some vsc
        \<and> (if newValue = Undefined then Inr Undefined else decode vsc newValue) = Inr vdecodedNew
        \<and> (if oldValue = Undefined then Inr Undefined else decode vsc oldValue) = Inr vdecodedOld
      \<longrightarrow> valueListener mapped vlistener valueId newValue oldValue getValueChange
          = Inr (vlistener valueId vdecodedNew vdecodedOld
                   (map_option (getTypedValueChange mapped) getValueChange)))"
  by (simp add: addCellListener_def addValueListener_def cellListener_def valueListener_def
      decodeDelivered_def)

lemma testSchema_cell_schemas:
  "tryGetCellSchema testSchema ''t'' ''a'' = Some (json testRuntime z_any)"
  "tryGetCellSchema testSchema ''t'' ''s'' = Some z_string"
  "tryGetCellSchema testSchema ''t'' ''other'' = None"
  "tryGetCellSchema testSchema ''nope'' ''any'' = None"
  "tryGetCellSchema testSchema ''t'' ''constructor'' = Some inheritedMember"
  by (simp_all add: tryGetCellSchema_def testSchema_table_schemas z_object_def
      getProperty_simps Object_prototype_def)

text \<open>
  C7, evaluated. The declaration has the table \<^verbatim>\<open>t\<close> with the cells \<^verbatim>\<open>s\<close>, \<^verbatim>\<open>n\<close>, \<^verbatim>\<open>a\<close>
  and \<^verbatim>\<open>opt\<close>, and no value \<^verbatim>\<open>extra\<close>. A listener registered for every cell is called
  with the decoded string for a change of the declared cell \<^verbatim>\<open>s\<close>, and with the raw
  values for a change of the undeclared cell \<^verbatim>\<open>other\<close> and of a cell of the undeclared
  table \<^verbatim>\<open>nope\<close>. For a change of the undeclared cell \<^verbatim>\<open>constructor\<close> the lookup finds
  the member of \<^verbatim>\<open>Object.prototype\<close> of that name: the wrapper raises a \<^verbatim>\<open>TypeError\<close>
  and the application's listener is not called. The same holds of a value listener and
  a change of the undeclared value \<^verbatim>\<open>constructor\<close>.
\<close>

theorem listener_inherited_name_evaluated:
  "addCellListener (\<lambda>t r c wrapped m. wrapped) testSchema None None None
        (\<lambda>t r c new old change. (t, r, c, new, old)) None
        ''t'' ''1'' ''s'' (Str ''x'') Undefined None
     = Inr (''t'', ''1'', ''s'', Str ''x'', Undefined)
   \<and> addCellListener (\<lambda>t r c wrapped m. wrapped) testSchema None None None
        (\<lambda>t r c new old change. (t, r, c, new, old)) None
        ''t'' ''1'' ''other'' (Str ''x'') Undefined None
     = Inr (''t'', ''1'', ''other'', Str ''x'', Undefined)
   \<and> addCellListener (\<lambda>t r c wrapped m. wrapped) testSchema None None None
        (\<lambda>t r c new old change. (t, r, c, new, old)) None
        ''nope'' ''1'' ''any'' (Str ''thing'') (Str ''[a,b]'') None
     = Inr (''nope'', ''1'', ''any'', Str ''thing'', Str ''[a,b]'')
   \<and> map_of (tables testSchema) ''t''
       = Some (z_object [(''s'', z_string), (''n'', z_number), (''a'', json testRuntime z_any),
                         (''opt'', z_optional z_string)])
   \<and> map_of [(''s'', z_string), (''n'', z_number), (''a'', json testRuntime z_any),
              (''opt'', z_optional z_string)] ''constructor'' = None
   \<and> addCellListener (\<lambda>t r c wrapped m. wrapped) testSchema None None None
        (\<lambda>t r c new old change. (t, r, c, new, old)) None
        ''t'' ''1'' ''constructor'' (Str ''x'') Undefined None
     = Inl (TypeError ''schema.decode is not a function'')
   \<and> addValueListener (\<lambda>v wrapped m. wrapped) testSchema None
        (\<lambda>v new old change. (v, new, old)) None ''extra'' (Str ''raw'') Undefined None
     = Inr (''extra'', Str ''raw'', Undefined)
   \<and> addValueListener (\<lambda>v wrapped m. wrapped) testSchema None
        (\<lambda>v new old change. (v, new, old)) None ''constructor'' (Str ''raw'') Undefined None
     = Inl (TypeError ''schema.decode is not a function'')"
  by (simp add: addCellListener_def addValueListener_def cellListener_def valueListener_def
      decodeDelivered_def testSchema_cell_schemas testSchema_value_schemas testSchema_tables
      inherited_simps z_string_def z_check_def)

section \<open>Absence as deletion\<close>

lemma testSchema_opt_schemas:
  "getCellSchema testSchema ''t'' ''opt'' = Inr (z_optional z_string)"
  "tryGetValueSchema testSchema ''vOpt'' = Some (z_optional z_string)"
  by (simp_all add: getCellSchema_def testSchema_value_schemas testSchema_table_schemas
      getProperty_simps z_object_def)

lemma encode_row_t:
  "encode (z_object [(''s'', z_string), (''n'', z_number), (''a'', json testRuntime z_any),
                     (''opt'', z_optional z_string)])
     (Obj [(''s'', Str ''x''), (''n'', Num (Finite 1)), (''a'', Arr [Str ''a'', Str ''b'']),
           (''opt'', Undefined)])
   = Inr [(''s'', Str ''x''), (''n'', Num (Finite 1)), (''a'', Str ''[a,b]''), (''opt'', Undefined)]"
  by (simp add: z_object_def z_string_def z_number_def z_optional_def z_any_def z_check_def
      json_def z_codec_def testRuntime_def)

lemma encodeRow_t:
  "encodeRow [(''s'', Str ''x''), (''n'', Num (Finite 1)), (''a'', Str ''[a,b]''), (''opt'', Undefined)]
     path
   = Inr [(''s'', Str ''x''), (''n'', Num (Finite 1)), (''a'', Str ''[a,b]'')]"
  by (simp add: encodeRow_def assertStorageCell_def isStorageCell_def assign_def)

lemma setRow_drops_absent_cell:
  "setRow createStore testSchema ''t'' ''1''
     (Obj [(''s'', Str ''x''), (''n'', Num (Finite 1)), (''a'', Arr [Str ''a'', Str ''b'']),
           (''opt'', Undefined)])
     \<lparr>tablesMap = [(''t'', [(''1'', [(''s'', Str ''w''), (''opt'', Str ''o'')])])], valuesMap = []\<rparr>
   = (Inr (), \<lparr>tablesMap = [(''t'', [(''1'', [(''s'', Str ''x''), (''n'', Num (Finite 1)),
                                               (''a'', Str ''[a,b]'')])])], valuesMap = []\<rparr>)"
  by (simp add: setRow_def getRowSchema_def testSchema_table_schemas encode_row_t encodeRow_t
      createStore_simps tb_setRow_def tb_putRow_def tb_putTable_def tb_getTable_def
      validRow_def isValidCell_def)

lemma literal_absent_deletes:
  "setValue createStore testSchema ''vOpt'' (Literal Undefined)
       \<lparr>tablesMap = [], valuesMap = [(''vOpt'', Str ''x'')]\<rparr>
     = (Inr (), \<lparr>tablesMap = [], valuesMap = []\<rparr>)"
  "setCell createStore testSchema ''t'' ''1'' ''opt'' (Literal Undefined)
       \<lparr>tablesMap = [(''t'', [(''1'', [(''s'', Str ''w''), (''opt'', Str ''o'')])])], valuesMap = []\<rparr>
     = (Inr (), \<lparr>tablesMap = [(''t'', [(''1'', [(''s'', Str ''w'')])])], valuesMap = []\<rparr>)"
  by (simp_all add: setValue_def setCell_def testSchema_opt_schemas z_optional_def
      assertStorageCell_def createStore_simps tb_delValue_def tb_hasRow_def tb_getTable_def
      tb_getRow_def tb_delCell_def tb_putRow_def tb_putTable_def)

lemma mapCell_absent:
  "mapCell (z_optional z_string) path (\<lambda>v. Inr Undefined) (Str ''x'') = Inr Undefined"
  "mapCell (z_optional z_string) path (\<lambda>v. Inr Undefined) (Str ''o'') = Inr Undefined"
  by (simp_all add: mapCell_def z_optional_def z_string_def z_check_def)

lemma mapper_absent_keeps:
  "setValue createStore testSchema ''vOpt'' (Mapper (\<lambda>v. Inr Undefined))
       \<lparr>tablesMap = [], valuesMap = [(''vOpt'', Str ''x'')]\<rparr>
     = (Inr (), \<lparr>tablesMap = [], valuesMap = [(''vOpt'', Str ''x'')]\<rparr>)"
  "setCell createStore testSchema ''t'' ''1'' ''opt'' (Mapper (\<lambda>v. Inr Undefined))
       \<lparr>tablesMap = [(''t'', [(''1'', [(''s'', Str ''w''), (''opt'', Str ''o'')])])], valuesMap = []\<rparr>
     = (Inr (), \<lparr>tablesMap = [(''t'', [(''1'', [(''s'', Str ''w''), (''opt'', Str ''o'')])])],
                 valuesMap = []\<rparr>)"
  by (simp_all add: setValue_def setCell_def testSchema_opt_schemas tb_setValueWith_def
      tb_setCellWith_def createStore_simps tb_getValue_def tb_hasRow_def tb_getTable_def
      tb_getRow_def tb_getCell_def mapCell_absent tb_setValue_def tb_setCell_def
      isValidCell_def)

lemma mapper_absent_returns_undefined:
  "tryGetValueSchema mapped valueId = Some sc \<Longrightarrow>
   (if current = Undefined then Inr Undefined else decode sc current) = Inr decoded \<Longrightarrow>
   setValue st mapped valueId (Mapper (\<lambda>v. Inr Undefined)) s
     = store_setValueWith st valueId (mapCell sc (''values.'' @ valueId) (\<lambda>v. Inr Undefined)) s
   \<and> mapCell sc (''values.'' @ valueId) (\<lambda>v. Inr Undefined) current = Inr Undefined"
  by (simp add: setValue_def mapCell_def)

text \<open>
  C2, evaluated on the reference store. \<^verbatim>\<open>setRow\<close> with a row whose optional field
  \<^verbatim>\<open>opt\<close> encodes to \<^verbatim>\<open>undefined\<close> stores the row without that cell, and \<^verbatim>\<open>setValue\<close>
  (\<^verbatim>\<open>setCell\<close>) with a literal that encodes to \<^verbatim>\<open>undefined\<close> deletes the value (the
  cell). With a function that returns \<^verbatim>\<open>undefined\<close> they call the store's
  \<^verbatim>\<open>setValue\<close> (\<^verbatim>\<open>setCell\<close>) with \<^verbatim>\<open>undefined\<close>, never \<^verbatim>\<open>delValue\<close> (\<^verbatim>\<open>delCell\<close>): the
  stored value and the stored cell stay as they were.
\<close>

theorem absence_as_deletion_evaluated:
  "setRow createStore testSchema ''t'' ''1''
     (Obj [(''s'', Str ''x''), (''n'', Num (Finite 1)), (''a'', Arr [Str ''a'', Str ''b'']),
           (''opt'', Undefined)])
     \<lparr>tablesMap = [(''t'', [(''1'', [(''s'', Str ''w''), (''opt'', Str ''o'')])])], valuesMap = []\<rparr>
   = (Inr (), \<lparr>tablesMap = [(''t'', [(''1'', [(''s'', Str ''x''), (''n'', Num (Finite 1)),
                                               (''a'', Str ''[a,b]'')])])], valuesMap = []\<rparr>)
   \<and> setValue createStore testSchema ''vOpt'' (Literal Undefined)
       \<lparr>tablesMap = [], valuesMap = [(''vOpt'', Str ''x'')]\<rparr>
     = (Inr (), \<lparr>tablesMap = [], valuesMap = []\<rparr>)
   \<and> setCell createStore testSchema ''t'' ''1'' ''opt'' (Literal Undefined)
       \<lparr>tablesMap = [(''t'', [(''1'', [(''s'', Str ''w''), (''opt'', Str ''o'')])])], valuesMap = []\<rparr>
     = (Inr (), \<lparr>tablesMap = [(''t'', [(''1'', [(''s'', Str ''w'')])])], valuesMap = []\<rparr>)
   \<and> setValue createStore testSchema ''vOpt'' (Mapper (\<lambda>v. Inr Undefined))
       \<lparr>tablesMap = [], valuesMap = [(''vOpt'', Str ''x'')]\<rparr>
     = (Inr (), \<lparr>tablesMap = [], valuesMap = [(''vOpt'', Str ''x'')]\<rparr>)
   \<and> setCell createStore testSchema ''t'' ''1'' ''opt'' (Mapper (\<lambda>v. Inr Undefined))
       \<lparr>tablesMap = [(''t'', [(''1'', [(''s'', Str ''w''), (''opt'', Str ''o'')])])], valuesMap = []\<rparr>
     = (Inr (), \<lparr>tablesMap = [(''t'', [(''1'', [(''s'', Str ''w''), (''opt'', Str ''o'')])])],
                 valuesMap = []\<rparr>)"
  using setRow_drops_absent_cell literal_absent_deletes mapper_absent_keeps
  by (intro conjI)


end
